theory Spec2Isabelle
  imports Complex_Main
begin

section \<open>The probabilistic forecast handler (class PFXHandler)\<close>

text \<open>
  The notebook defines one class, \<open>PFXHandler\<close>, with the methods \<open>create_headers\<close>,
  \<open>post_request\<close>, \<open>get_request\<close> and \<open>parse_response\<close>. This theory embeds
  \<open>create_headers\<close>, \<open>get_request\<close> and \<open>parse_response\<close>. Every exception the
  Python can raise is a value of \<open>pyerror\<close>; a function that can raise returns
  \<open>pyerror + 'a\<close>, with \<open>Inl\<close> for the exception.
\<close>

subsection \<open>Exceptions\<close>

text \<open>
  \<open>ValueError\<close> is raised at three places of \<open>parse_response\<close>; the argument of the
  constructor says which: \<open>datetime.fromisoformat\<close> on a string that is no ISO date,
  \<open>max\<close> on an empty list, and \<open>pd.DataFrame\<close> on columns of different lengths.
  \<open>TypeError\<close> likewise: \<open>fromisoformat\<close> on a value that is no string, and an
  ordering or a difference of an offset-naive and an offset-aware datetime.
\<close>

datatype value_error = Invalid_isoformat | Max_empty_sequence | Arrays_not_same_length

datatype type_error = Fromisoformat_not_str | Naive_and_aware

datatype pyerror =
    AssertionError
  | NameError
  | JSONDecodeError
  | AttributeError
  | TypeError type_error
  | ValueError value_error
  | OverflowError
  | TransportError

definition bind_err :: "pyerror + 'a \<Rightarrow> ('a \<Rightarrow> pyerror + 'b) \<Rightarrow> pyerror + 'b" where
  "bind_err m f = (case m of Inl e \<Rightarrow> Inl e | Inr x \<Rightarrow> f x)"

text \<open>A list comprehension whose element expression can raise: the first exception, in
  the order of the list, ends it.\<close>

fun comprehension :: "('a \<Rightarrow> pyerror + 'b) \<Rightarrow> 'a list \<Rightarrow> pyerror + 'b list" where
  "comprehension f [] = Inr []"
| "comprehension f (x # xs) =
     bind_err (f x) (\<lambda>y. bind_err (comprehension f xs) (\<lambda>ys. Inr (y # ys)))"

subsection \<open>HTTP requests and responses\<close>

text \<open>
  A response of the \<open>requests\<close> library, as far as the handler reads it: the status code
  and what \<open>.json()\<close> gives. \<open>.json()\<close> raises on a body that is no JSON; a JSON value
  that is no object has no \<open>.get\<close>. The values of the object are typed as the protocol
  has the job identifier: a string, or null.
\<close>

datatype jvalue = JNull | JString string

datatype json_body = NotJSON | JSONOther | JSONObject "string \<rightharpoonup> jvalue"

record response =
  status_code :: int
  json :: json_body

record request =
  http_method :: string
  url :: string
  headers :: "(string \<times> string) list"
  data :: "(string \<times> string) list"

record handler =
  api_key :: string

text \<open>The state around a call: the module-level variable \<open>post_response\<close> of the notebook
  (\<open>None\<close> while no cell has bound it) and the requests sent so far, oldest first.\<close>

record world =
  post_response :: "response option"
  sent :: "request list"

definition pfx_url :: string where
  "pfx_url = ''https://service.solaranywhere.com/api/v2/ProbabilisticForecast''"

text \<open>\<open>__init__\<close>: the assertion that an API key was given.\<close>

definition init :: "string option \<Rightarrow> pyerror + handler" where
  "init key = (case key of None \<Rightarrow> Inl AssertionError | Some k \<Rightarrow> Inr \<lparr>api_key = k\<rparr>)"

definition create_headers :: "handler \<Rightarrow> (string \<times> string) list" where
  "create_headers self =
     [(''Accept'', ''application/json''),
      (''Accept-Charset'', ''utf-8''),
      (''Content-Type'', ''application/json''),
      (''X-Api-Key'', api_key self)]"

text \<open>\<open>dict.get(key, None)\<close> on the JSON object, and the text an f-string puts for the
  value: Python's \<open>None\<close> is formatted as the four letters \<open>None\<close>.\<close>

definition dict_get :: "(string \<rightharpoonup> jvalue) \<Rightarrow> string \<Rightarrow> jvalue" where
  "dict_get d k = (case d k of None \<Rightarrow> JNull | Some v \<Rightarrow> v)"

fun format_value :: "jvalue \<Rightarrow> string" where
  "format_value JNull = ''None''"
| "format_value (JString s) = s"

text \<open>
  \<open>get_request(self, post_request_response)\<close>. The body never reads its parameter: each
  of its three uses is of the name \<open>post_response\<close>, which Python resolves to the
  module-level variable (\<open>NameError\<close> when it is unbound). \<open>requests_request\<close> is the
  transport: what \<open>requests.request\<close> returns, or raises, for a request.
\<close>

definition get_request ::
  "handler \<Rightarrow> response \<Rightarrow> (request \<Rightarrow> pyerror + response) \<Rightarrow> world
     \<Rightarrow> (pyerror + response) \<times> world" where
  "get_request self post_request_response requests_request w =
     (case post_response w of
        None \<Rightarrow> (Inl NameError, w)
      | Some pr \<Rightarrow>
          if status_code pr \<noteq> 200 then (Inl AssertionError, w)
          else
            (let hdrs = create_headers self in
             case json pr of
               NotJSON \<Rightarrow> (Inl JSONDecodeError, w)
             | JSONOther \<Rightarrow> (Inl AttributeError, w)
             | JSONObject post_json \<Rightarrow>
                 (let request_id = dict_get post_json ''ProbabilisticForecastRequestId'';
                      u = pfx_url @ ''Result/'' @ format_value request_id;
                      req = \<lparr>http_method = ''GET'', url = u, headers = hdrs, data = []\<rparr>
                  in (requests_request req, w\<lparr>sent := sent w @ [req]\<rparr>))))"

subsection \<open>Datetimes\<close>

text \<open>
  A \<open>datetime\<close> is its wall-clock reading, in microseconds since 0001-01-01T00:00:00, and
  its UTC offset in microseconds (\<open>None\<close> for an offset-naive value). Python's range is
  the years 1 to 9999, that is \<open>date.max.toordinal() = 3652059\<close> days. A \<open>timedelta\<close>
  is a number of microseconds.
\<close>

record datetime =
  micros :: int
  utcoffset :: "int option"

type_synonym timedelta = int

definition max_micros :: int where
  "max_micros = 3652059 * 86400 * 1000000"

definition timedelta_hours :: "int \<Rightarrow> timedelta" where
  "timedelta_hours h = h * 3600000000"

definition timedelta_minutes :: "int \<Rightarrow> timedelta" where
  "timedelta_minutes m = m * 60000000"

text \<open>\<open>datetime + timedelta\<close> keeps the offset and raises \<open>OverflowError\<close> when the
  wall-clock reading leaves the range; \<open>datetime - timedelta\<close> adds the negated delta.\<close>

definition dt_add :: "datetime \<Rightarrow> timedelta \<Rightarrow> pyerror + datetime" where
  "dt_add d td =
     (let m = micros d + td
      in if 0 \<le> m \<and> m < max_micros then Inr (d\<lparr>micros := m\<rparr>) else Inl OverflowError)"

definition dt_sub_td :: "datetime \<Rightarrow> timedelta \<Rightarrow> pyerror + datetime" where
  "dt_sub_td d td = dt_add d (- td)"

text \<open>\<open>a < b\<close> and \<open>a - b\<close> on datetimes: on the wall-clock readings when both are naive,
  on the readings less their offsets when both are aware, \<open>TypeError\<close> otherwise.\<close>

definition dt_less :: "datetime \<Rightarrow> datetime \<Rightarrow> pyerror + bool" where
  "dt_less a b =
     (case (utcoffset a, utcoffset b) of
        (None, None) \<Rightarrow> Inr (micros a < micros b)
      | (Some oa, Some ob) \<Rightarrow> Inr (micros a - oa < micros b - ob)
      | _ \<Rightarrow> Inl (TypeError Naive_and_aware))"

definition dt_diff :: "datetime \<Rightarrow> datetime \<Rightarrow> pyerror + timedelta" where
  "dt_diff a b =
     (case (utcoffset a, utcoffset b) of
        (None, None) \<Rightarrow> Inr (micros a - micros b)
      | (Some oa, Some ob) \<Rightarrow> Inr ((micros a - oa) - (micros b - ob))
      | _ \<Rightarrow> Inl (TypeError Naive_and_aware))"

text \<open>\<open>min(a, b)\<close> of two arguments: \<open>a\<close>, unless \<open>b < a\<close>.\<close>

definition py_min :: "datetime \<Rightarrow> datetime \<Rightarrow> pyerror + datetime" where
  "py_min a b = bind_err (dt_less b a) (\<lambda>lt. Inr (if lt then b else a))"

text \<open>\<open>max\<close> of a list of numbers: \<open>ValueError\<close> on the empty list.\<close>

fun py_max :: "nat list \<Rightarrow> pyerror + nat" where
  "py_max [] = Inl (ValueError Max_empty_sequence)"
| "py_max (x # xs) = Inr (fold max xs x)"

text \<open>\<open>datetime.fromisoformat(v)\<close> for \<open>v = res_json.get(key)\<close>: \<open>TypeError\<close> when the
  key is absent or null, \<open>ValueError\<close> when the parser rejects the string. The parser
  of the standard library is the parameter \<open>fromisoformat\<close>.\<close>

definition parse_iso :: "(string \<Rightarrow> datetime option) \<Rightarrow> string option \<Rightarrow> pyerror + datetime" where
  "parse_iso fromisoformat v =
     (case v of
        None \<Rightarrow> Inl (TypeError Fromisoformat_not_str)
      | Some s \<Rightarrow>
          (case fromisoformat s of
             None \<Rightarrow> Inl (ValueError Invalid_isoformat)
           | Some d \<Rightarrow> Inr d))"

subsection \<open>Floats\<close>

text \<open>
  A \<open>float\<close> of Python is an IEEE 754 binary64 number: here a significand \<open>m\<close> and an
  exponent \<open>e\<close>, for the value \<open>m * 2 ^ e\<close>. \<open>nearest_double p q\<close> is the double
  nearest to the fraction \<open>p / q\<close> (\<open>0 < q\<close>), ties to the even significand, as the
  true division of two \<open>int\<close>s and the division of two floats round. The significand
  has 53 bits; the exponent is not bounded, so the definition is that of binary64 for
  results between \<open>2 ^ -1022\<close> and \<open>2 ^ 1024\<close> in magnitude, where every quotient of
  this program lies (a difference of two datetimes is less than \<open>2 ^ 59\<close> microseconds).
\<close>

fun bit_length :: "nat \<Rightarrow> nat" where
  "bit_length n = (if n = 0 then 0 else Suc (bit_length (n div 2)))"

text \<open>\<open>floor_log2 p q\<close> is the \<open>k\<close> with \<open>2 ^ k \<le> p / q < 2 ^ (k + 1)\<close>, for \<open>0 < p\<close>
  and \<open>0 < q\<close>.\<close>

definition floor_log2 :: "int \<Rightarrow> int \<Rightarrow> int" where
  "floor_log2 p q =
     (if q \<le> p then int (bit_length (nat (p div q))) - 1
      else - int (bit_length (nat ((q + p - 1) div p - 1))))"

text \<open>The integer nearest to \<open>p / q\<close> (\<open>0 < q\<close>), a tie going to the even one.\<close>

definition round_half_even :: "int \<Rightarrow> int \<Rightarrow> int" where
  "round_half_even p q =
     (let n = p div q; r = p mod q
      in if 2 * r < q then n else if q < 2 * r then n + 1 else if even n then n else n + 1)"

record double =
  significand :: int
  exponent :: int

definition nearest_double :: "int \<Rightarrow> int \<Rightarrow> double" where
  "nearest_double p q =
     (if p = 0 then \<lparr>significand = 0, exponent = 0\<rparr>
      else let e = floor_log2 \<bar>p\<bar> q - 52
           in \<lparr>significand = (if 0 \<le> e then round_half_even p (q * 2 ^ nat e)
                               else round_half_even (p * 2 ^ nat (- e)) q),
               exponent = e\<rparr>)"

text \<open>The rational number that a double is.\<close>

definition double_value :: "double \<Rightarrow> rat" where
  "double_value x =
     (if 0 \<le> exponent x then of_int (significand x * 2 ^ nat (exponent x))
      else of_int (significand x) / of_int (2 ^ nat (- exponent x)))"

text \<open>\<open>x / c\<close> for a float \<open>x\<close> and a float \<open>c\<close> that is a positive whole number
  (here \<open>3600.0\<close>): the double nearest to the quotient.\<close>

definition float_div :: "double \<Rightarrow> int \<Rightarrow> double" where
  "float_div x c =
     (if 0 \<le> exponent x then nearest_double (significand x * 2 ^ nat (exponent x)) c
      else nearest_double (significand x) (c * 2 ^ nat (- exponent x)))"

text \<open>
  \<open>round(x, 2)\<close> on a float: CPython writes \<open>x\<close> with two digits after the point,
  correctly rounded from the exact value of \<open>x\<close> (ties to even), and reads that decimal
  back as a float. \<open>hundredths x\<close> is the decimal written, in hundredths.
\<close>

definition hundredths :: "double \<Rightarrow> int" where
  "hundredths x =
     (if 0 \<le> exponent x then 100 * significand x * 2 ^ nat (exponent x)
      else round_half_even (100 * significand x) (2 ^ nat (- exponent x)))"

definition py_round2 :: "double \<Rightarrow> double" where
  "py_round2 x = nearest_double (hundredths x) 100"

text \<open>\<open>td.total_seconds()\<close> is the true division of the microseconds of \<open>td\<close> by
  \<open>10 ** 6\<close>; \<open>quotient_hours td\<close> is \<open>td.total_seconds()/3600.0\<close>, and
  \<open>py_round_hours td\<close> is \<open>round(td.total_seconds()/3600.0, 2)\<close>, as a rational.\<close>

definition total_seconds :: "timedelta \<Rightarrow> double" where
  "total_seconds td = nearest_double td 1000000"

definition quotient_hours :: "timedelta \<Rightarrow> double" where
  "quotient_hours td = float_div (total_seconds td) 3600"

definition py_round_hours :: "timedelta \<Rightarrow> rat" where
  "py_round_hours td = double_value (py_round2 (quotient_hours td))"

subsection \<open>The payload and the table\<close>

text \<open>
  The payload of the GET response, \<open>res_json\<close>, typed as the protocol has it: each of
  \<open>Status\<close>, \<open>StartTime\<close>, \<open>TimeGenerated\<close> is a string, or \<open>None\<close> when the key is
  absent or null; \<open>Results\<close> is an object, or \<open>None\<close>; in it \<open>GHI\<close> and \<open>POAI\<close> are
  each a list with one quantile record \<open>'q\<close> per interval, or \<open>None\<close>.
\<close>

record 'q results =
  GHI :: "'q list option"
  POAI :: "'q list option"

record 'q payload =
  Status :: "string option"
  StartTime :: "string option"
  TimeGenerated :: "string option"
  Results :: "'q results option"

text \<open>One row of the data frame. \<open>'f\<close> is the type of the lead time: \<open>rat\<close>, the
  value of the float, when the float computation is \<open>py_round_hours\<close>.\<close>

record ('q, 'f) forecast_row =
  issue_time :: datetime
  interval_start :: datetime
  interval_end :: datetime
  lead_time_hours :: "'f"
  row_GHI :: "'q option"
  row_POAI :: "'q option"

text \<open>
  \<open>pd.DataFrame(forecast_dict)\<close> for the dictionary that \<open>parse_response\<close> builds: the
  values that are lists must all have one length, or pandas raises \<open>ValueError\<close>; a
  scalar (the issue time, and \<open>None\<close> for an output field that is not there) is repeated
  in every row.
\<close>

definition cell :: "'q list option \<Rightarrow> nat \<Rightarrow> 'q option" where
  "cell col i = (case col of None \<Rightarrow> None | Some xs \<Rightarrow> Some (xs ! i))"

definition raw_lengths ::
  "datetime list \<Rightarrow> datetime list \<Rightarrow> 'f list \<Rightarrow> 'q list option \<Rightarrow> 'q list option \<Rightarrow> nat list" where
  "raw_lengths starts ends leads g p =
     [length starts, length ends, length leads]
       @ (case g of None \<Rightarrow> [] | Some xs \<Rightarrow> [length xs])
       @ (case p of None \<Rightarrow> [] | Some xs \<Rightarrow> [length xs])"

definition DataFrame ::
  "datetime \<Rightarrow> datetime list \<Rightarrow> datetime list \<Rightarrow> 'f list \<Rightarrow> 'q list option \<Rightarrow> 'q list option
     \<Rightarrow> pyerror + ('q, 'f) forecast_row list" where
  "DataFrame it starts ends leads g p =
     (if length (remdups (raw_lengths starts ends leads g p)) > 1
      then Inl (ValueError Arrays_not_same_length)
      else Inr (map (\<lambda>i. \<lparr>issue_time = it,
                          interval_start = starts ! i,
                          interval_end = ends ! i,
                          lead_time_hours = leads ! i,
                          row_GHI = cell g i,
                          row_POAI = cell p i\<rparr>)
                    [0..<length starts]))"

text \<open>The lengths of the output fields that are there:
  \<open>[len(i) for i in [GHI, POAI] if i is not None]\<close>.\<close>

definition present_lengths :: "'q list option \<Rightarrow> 'q list option \<Rightarrow> nat list" where
  "present_lengths g p = map length (List.map_filter id [g, p])"

text \<open>
  \<open>parse_response(self, res_json)\<close>. The result \<open>None\<close> is Python's \<open>None\<close>, returned
  for a pending request; \<open>Some rows\<close> is the data frame. \<open>round_hours\<close> is the float
  computation \<open>round(td.total_seconds()/3600.0, 2)\<close> on a timedelta \<open>td\<close>; the
  program is \<open>parse_response\<close> with \<open>py_round_hours\<close> for it. The line
  that is printed for a pending request is left out.
\<close>

definition parse_response ::
  "(string \<Rightarrow> datetime option) \<Rightarrow> (timedelta \<Rightarrow> 'f) \<Rightarrow> 'q payload
     \<Rightarrow> pyerror + ('q, 'f) forecast_row list option" where
  "parse_response fromisoformat round_hours res_json =
     (if Status res_json = Some ''Pending'' then Inr None
      else
        bind_err (parse_iso fromisoformat (StartTime res_json)) (\<lambda>first_interval_start.
        bind_err (parse_iso fromisoformat (TimeGenerated res_json)) (\<lambda>api_call_time.
        bind_err (dt_sub_td first_interval_start (timedelta_hours 4)) (\<lambda>four_before.
        bind_err (py_min four_before api_call_time) (\<lambda>forecast_issue_time.
        bind_err (case Results res_json of None \<Rightarrow> Inl AttributeError | Some r \<Rightarrow> Inr r) (\<lambda>r.
        bind_err (py_max (present_lengths (GHI r) (POAI r))) (\<lambda>num_forecasts.
        bind_err (comprehension
                    (\<lambda>i. dt_add first_interval_start (timedelta_minutes (int i * 60)))
                    [0..<num_forecasts]) (\<lambda>interval_starts.
        bind_err (comprehension (\<lambda>s. dt_add s (timedelta_minutes 60)) interval_starts)
          (\<lambda>interval_ends.
        bind_err (comprehension
                    (\<lambda>s. bind_err (dt_diff s forecast_issue_time) (\<lambda>td. Inr (round_hours td)))
                    interval_starts) (\<lambda>lead_times.
        bind_err (DataFrame forecast_issue_time interval_starts interval_ends lead_times
                    (GHI r) (POAI r)) (\<lambda>rows.
        Inr (Some rows))))))))))))"

subsection \<open>What the specification calls things\<close>

text \<open>
  The instant a datetime denotes: its wall-clock reading less its UTC offset (an
  offset-naive reading is taken as it is). \<open>plus_hours d n\<close> is the datetime \<open>n\<close> hours
  after \<open>d\<close>, at the same offset.
\<close>

definition instant :: "datetime \<Rightarrow> int" where
  "instant d = micros d - (case utcoffset d of None \<Rightarrow> 0 | Some off \<Rightarrow> off)"

definition plus_hours :: "datetime \<Rightarrow> int \<Rightarrow> datetime" where
  "plus_hours d n = d\<lparr>micros := micros d + n * 3600000000\<rparr>"

text \<open>The number of intervals in the words of the specification: the maximum of the
  lengths of the output-field sequences that are present.\<close>

definition num_intervals :: "'q results \<Rightarrow> nat" where
  "num_intervals r = Max (length ` (set_option (GHI r) \<union> set_option (POAI r)))"



definition unequal_fields :: "'q results \<Rightarrow> bool" where
  "unequal_fields r =
     (case (GHI r, POAI r) of (Some xs, Some ys) \<Rightarrow> length xs \<noteq> length ys | _ \<Rightarrow> False)"

text \<open>Row \<open>i\<close> of the table for a start time, a time generated and results, with
  \<open>round_hours\<close> for the float computation.\<close>

definition issue_time_of :: "datetime \<Rightarrow> datetime \<Rightarrow> datetime" where
  "issue_time_of start_time time_generated =
     (if instant time_generated < instant (plus_hours start_time (- 4)) then time_generated
      else plus_hours start_time (- 4))"

definition row_of ::
  "(timedelta \<Rightarrow> 'f) \<Rightarrow> datetime \<Rightarrow> datetime \<Rightarrow> 'q results \<Rightarrow> nat \<Rightarrow> ('q, 'f) forecast_row" where
  "row_of round_hours start_time time_generated r i =
     \<lparr>issue_time = issue_time_of start_time time_generated,
      interval_start = plus_hours start_time (int i),
      interval_end = plus_hours start_time (int i + 1),
      lead_time_hours =
        round_hours (instant (plus_hours start_time (int i))
                      - instant (issue_time_of start_time time_generated)),
      row_GHI = map_option (\<lambda>xs. xs ! i) (GHI r),
      row_POAI = map_option (\<lambda>ys. ys ! i) (POAI r)\<rparr>"

text \<open>The GET that retrieves the result of the job whose identifier is written
  \<open>ident\<close>: the result endpoint followed by \<open>ident\<close>, with the headers of the handler.\<close>

definition result_request :: "handler \<Rightarrow> string \<Rightarrow> request" where
  "result_request self ident =
     \<lparr>http_method = ''GET'',
      url = ''https://service.solaranywhere.com/api/v2/ProbabilisticForecastResult/'' @ ident,
      headers = create_headers self,
      data = []\<rparr>"

subsection \<open>Scenarios\<close>

text \<open>
  The values of \<open>datetime.fromisoformat\<close> on the strings of the scenarios below.
  2024-02-14 is day 738930 of the proleptic Gregorian calendar
  (\<open>date(2024, 2, 14).toordinal()\<close>), so 738929 days after 0001-01-01.
\<close>

definition feb14s :: "int \<Rightarrow> int \<Rightarrow> int \<Rightarrow> datetime" where
  "feb14s h m sec =
     \<lparr>micros = (738929 * 86400 + h * 3600 + m * 60 + sec) * 1000000, utcoffset = Some 0\<rparr>"

definition feb14 :: "int \<Rightarrow> int \<Rightarrow> datetime" where
  "feb14 h m = feb14s h m 0"

text \<open>9999-12-31 is day 3652059, the last one of the range.\<close>

definition dec31_9999 :: "int \<Rightarrow> datetime" where
  "dec31_9999 h = \<lparr>micros = (3652058 * 86400 + h * 3600) * 1000000, utcoffset = Some 0\<rparr>"

definition scenario_fromisoformat :: "string \<Rightarrow> datetime option" where
  "scenario_fromisoformat s =
     (if s = ''2024-02-14T09:00:00+00:00'' then Some (feb14 9 0)
      else if s = ''2024-02-14T02:00:00+00:00'' then Some (feb14 2 0)
      else if s = ''2024-02-14T07:30:00+00:00'' then Some (feb14 7 30)
      else if s = ''2024-02-14T04:59:06+00:00'' then Some (feb14s 4 59 6)
      else if s = ''9999-12-31T22:00:00+00:00'' then Some (dec31_9999 22)
      else None)"

text \<open>The round trip of the specification: the call was made at 02:00, seven hours
  before the first interval; three intervals of GHI, no POAI.\<close>

definition early_call_results :: "(nat list) results" where
  "early_call_results = \<lparr>GHI = Some [[10, 50, 90], [11, 51, 91], [12, 52, 92]], POAI = None\<rparr>"

definition early_call_payload :: "(nat list) payload" where
  "early_call_payload =
     \<lparr>Status = Some ''Complete'',
      StartTime = Some ''2024-02-14T09:00:00+00:00'',
      TimeGenerated = Some ''2024-02-14T02:00:00+00:00'',
      Results = Some early_call_results\<rparr>"

text \<open>The call was made at 07:30, less than four hours before the first interval; two
  intervals of both fields.\<close>

definition late_call_results :: "(nat list) results" where
  "late_call_results =
     \<lparr>GHI = Some [[10, 50, 90], [11, 51, 91]], POAI = Some [[20, 60, 95], [21, 61, 96]]\<rparr>"

definition late_call_payload :: "(nat list) payload" where
  "late_call_payload =
     \<lparr>Status = Some ''Complete'',
      StartTime = Some ''2024-02-14T09:00:00+00:00'',
      TimeGenerated = Some ''2024-02-14T07:30:00+00:00'',
      Results = Some late_call_results\<rparr>"

text \<open>The tables of the two scenarios: issue time 02:00 for the early call, 05:00 (four
  hours before the first interval) for the late one.\<close>

definition early_call_rows :: "(nat list, rat) forecast_row list" where
  "early_call_rows =
     [\<lparr>issue_time = feb14 2 0, interval_start = feb14 9 0, interval_end = feb14 10 0,
       lead_time_hours = 7, row_GHI = Some [10, 50, 90], row_POAI = None\<rparr>,
      \<lparr>issue_time = feb14 2 0, interval_start = feb14 10 0, interval_end = feb14 11 0,
       lead_time_hours = 8, row_GHI = Some [11, 51, 91], row_POAI = None\<rparr>,
      \<lparr>issue_time = feb14 2 0, interval_start = feb14 11 0, interval_end = feb14 12 0,
       lead_time_hours = 9, row_GHI = Some [12, 52, 92], row_POAI = None\<rparr>]"

definition late_call_rows :: "(nat list, rat) forecast_row list" where
  "late_call_rows =
     [\<lparr>issue_time = feb14 5 0, interval_start = feb14 9 0, interval_end = feb14 10 0,
       lead_time_hours = 4, row_GHI = Some [10, 50, 90], row_POAI = Some [20, 60, 95]\<rparr>,
      \<lparr>issue_time = feb14 5 0, interval_start = feb14 10 0, interval_end = feb14 11 0,
       lead_time_hours = 5, row_GHI = Some [11, 51, 91], row_POAI = Some [21, 61, 96]\<rparr>]"




text \<open>A forecast that starts two hours before the end of the range of datetimes, with
  one interval of GHI and two of POAI.\<close>

definition end_of_range_results :: "(nat list) results" where
  "end_of_range_results =
     \<lparr>GHI = Some [[10, 50, 90]], POAI = Some [[20, 60, 95], [21, 61, 96]]\<rparr>"

definition end_of_range_payload :: "(nat list) payload" where
  "end_of_range_payload =
     \<lparr>Status = Some ''Complete'',
      StartTime = Some ''9999-12-31T22:00:00+00:00'',
      TimeGenerated = Some ''2024-02-14T02:00:00+00:00'',
      Results = Some end_of_range_results\<rparr>"

definition pending_payload :: "(nat list) payload" where
  "pending_payload =
     \<lparr>Status = Some ''Pending'', StartTime = None, TimeGenerated = None, Results = None\<rparr>"

text \<open>A finished request with neither output field, and one whose two fields have three
  and two intervals.\<close>

definition no_fields_results :: "(nat list) results" where
  "no_fields_results = \<lparr>GHI = None, POAI = None\<rparr>"

definition no_fields_payload :: "(nat list) payload" where
  "no_fields_payload =
     \<lparr>Status = Some ''Complete'',
      StartTime = Some ''2024-02-14T09:00:00+00:00'',
      TimeGenerated = Some ''2024-02-14T02:00:00+00:00'',
      Results = Some no_fields_results\<rparr>"

text \<open>A finished request with neither output field and without a start time.\<close>

definition no_start_payload :: "(nat list) payload" where
  "no_start_payload =
     \<lparr>Status = Some ''Complete'',
      StartTime = None,
      TimeGenerated = Some ''2024-02-14T02:00:00+00:00'',
      Results = Some no_fields_results\<rparr>"

definition unequal_results :: "(nat list) results" where
  "unequal_results =
     \<lparr>GHI = Some [[10, 50, 90], [11, 51, 91], [12, 52, 92]],
      POAI = Some [[20, 60, 95], [21, 61, 96]]\<rparr>"

definition unequal_payload :: "(nat list) payload" where
  "unequal_payload =
     \<lparr>Status = Some ''Complete'',
      StartTime = Some ''2024-02-14T09:00:00+00:00'',
      TimeGenerated = Some ''2024-02-14T02:00:00+00:00'',
      Results = Some unequal_results\<rparr>"

text \<open>Submissions, a transport that answers every request with status 200 and an empty
  JSON object, and the states of the notebook around a call of \<open>get_request\<close>.\<close>

definition scenario_handler :: handler where
  "scenario_handler = \<lparr>api_key = ''secret''\<rparr>"

definition accepted_submission :: response where
  "accepted_submission =
     \<lparr>status_code = 200,
      json = JSONObject (Map.empty(''ProbabilisticForecastRequestId'' := Some (JString ''abc'')))\<rparr>"

definition no_id_submission :: response where
  "no_id_submission = \<lparr>status_code = 200, json = JSONObject Map.empty\<rparr>"

definition failed_submission :: response where
  "failed_submission = \<lparr>status_code = 500, json = JSONObject Map.empty\<rparr>"

definition scenario_reply :: response where
  "scenario_reply = \<lparr>status_code = 200, json = JSONObject Map.empty\<rparr>"

definition scenario_transport :: "request \<Rightarrow> pyerror + response" where
  "scenario_transport req = Inr scenario_reply"

definition world_of :: "response \<Rightarrow> world" where
  "world_of r = \<lparr>post_response = Some r, sent = []\<rparr>"

section \<open>Properties of \<open>parse_response\<close>\<close>

subsection \<open>The steps of a call that returns a table\<close>

lemma comprehension_length:
  "comprehension f xs = Inr ys \<Longrightarrow> length ys = length xs"
  by (induction xs arbitrary: ys) (auto simp: bind_err_def split: sum.splits)

lemma comprehension_nth:
  "comprehension f xs = Inr ys \<Longrightarrow> i < length xs \<Longrightarrow> f (xs ! i) = Inr (ys ! i)"
proof (induction xs arbitrary: ys i)
  case Nil
  then show ?case by simp
next
  case (Cons x xs)
  then show ?case
    by (cases i) (auto simp: bind_err_def split: sum.splits)
qed

lemma remdups_le_one_eq:
  assumes "\<not> 1 < length (remdups ns)" "a \<in> set ns" "b \<in> set ns"
  shows "a = b"
proof -
  have "card (set ns) \<le> 1"
    using assms(1) by (simp add: length_remdups_card_conv)
  then show ?thesis
    using assms(2,3) card_le_Suc0_iff_eq [of "set ns"] by auto
qed

lemma parse_response_Inr:
  assumes "parse_response fi rh p = Inr res" and "Status p \<noteq> Some ''Pending''"
  shows "\<exists>st tg fb it r n starts ends leads rows.
           res = Some rows
         \<and> parse_iso fi (StartTime p) = Inr st
         \<and> parse_iso fi (TimeGenerated p) = Inr tg
         \<and> dt_sub_td st (timedelta_hours 4) = Inr fb
         \<and> py_min fb tg = Inr it
         \<and> Results p = Some r
         \<and> py_max (present_lengths (GHI r) (POAI r)) = Inr n
         \<and> comprehension (\<lambda>i. dt_add st (timedelta_minutes (int i * 60))) [0..<n] = Inr starts
         \<and> comprehension (\<lambda>s. dt_add s (timedelta_minutes 60)) starts = Inr ends
         \<and> comprehension (\<lambda>s. bind_err (dt_diff s it) (\<lambda>td. Inr (rh td))) starts = Inr leads
         \<and> DataFrame it starts ends leads (GHI r) (POAI r) = Inr rows"
  using assms unfolding parse_response_def bind_err_def
  by (auto split: sum.splits option.splits)

lemma DataFrame_Inr:
  assumes "DataFrame it starts ends leads g p = Inr rows"
  shows "length rows = length starts"
    and "length ends = length starts"
    and "length leads = length starts"
    and "g = Some xs \<Longrightarrow> length xs = length starts"
    and "p = Some ys \<Longrightarrow> length ys = length starts"
    and "i < length starts \<Longrightarrow>
           rows ! i = \<lparr>issue_time = it, interval_start = starts ! i, interval_end = ends ! i,
                       lead_time_hours = leads ! i, row_GHI = cell g i, row_POAI = cell p i\<rparr>"
proof -
  let ?ns = "raw_lengths starts ends leads g p"
  from assms have small: "\<not> 1 < length (remdups ?ns)"
    and rows: "rows = map (\<lambda>i. \<lparr>issue_time = it, interval_start = starts ! i,
                                 interval_end = ends ! i, lead_time_hours = leads ! i,
                                 row_GHI = cell g i, row_POAI = cell p i\<rparr>) [0..<length starts]"
    by (auto simp: DataFrame_def split: if_splits)
  have same: "n = length starts" if "n \<in> set ?ns" for n
    using remdups_le_one_eq [OF small that, of "length starts"] by (simp add: raw_lengths_def)
  show "length rows = length starts" by (simp add: rows)
  show "length ends = length starts" by (rule same) (simp add: raw_lengths_def)
  show "length leads = length starts" by (rule same) (simp add: raw_lengths_def)
  show "length xs = length starts" if "g = Some xs"
    by (rule same) (simp add: raw_lengths_def that)
  show "length ys = length starts" if "p = Some ys"
    by (rule same) (simp add: raw_lengths_def that)
  show "rows ! i = \<lparr>issue_time = it, interval_start = starts ! i, interval_end = ends ! i,
                     lead_time_hours = leads ! i, row_GHI = cell g i, row_POAI = cell p i\<rparr>"
    if "i < length starts"
    using that by (simp add: rows)
qed

lemma py_max_present:
  assumes "py_max (present_lengths (GHI r) (POAI r)) = Inr n"
  shows "n = num_intervals r"
  using assms
  by (cases "GHI r"; cases "POAI r")
    (auto simp: present_lengths_def num_intervals_def List.map_filter_def max.commute)

lemma dt_add_Inr: "dt_add d td = Inr d' \<Longrightarrow> d' = d\<lparr>micros := micros d + td\<rparr>"
  by (auto simp: dt_add_def Let_def split: if_splits)

lemma py_min_Inr:
  assumes "py_min a b = Inr c"
  shows "c = (if instant b < instant a then b else a)"
  using assms
  by (auto simp: py_min_def bind_err_def dt_less_def instant_def split: sum.splits option.splits)

lemma parse_response_table:
  assumes "parse_response fi rh p = Inr (Some rows)"
  shows "\<exists>st tg fb it r n starts ends leads.
           parse_iso fi (StartTime p) = Inr st
         \<and> parse_iso fi (TimeGenerated p) = Inr tg
         \<and> dt_sub_td st (timedelta_hours 4) = Inr fb
         \<and> py_min fb tg = Inr it
         \<and> Results p = Some r
         \<and> py_max (present_lengths (GHI r) (POAI r)) = Inr n
         \<and> comprehension (\<lambda>i. dt_add st (timedelta_minutes (int i * 60))) [0..<n] = Inr starts
         \<and> comprehension (\<lambda>s. dt_add s (timedelta_minutes 60)) starts = Inr ends
         \<and> comprehension (\<lambda>s. bind_err (dt_diff s it) (\<lambda>td. Inr (rh td))) starts = Inr leads
         \<and> DataFrame it starts ends leads (GHI r) (POAI r) = Inr rows"
proof -
  from assms have "Status p \<noteq> Some ''Pending''"
    by (auto simp: parse_response_def)
  from parse_response_Inr [OF assms this] show ?thesis by auto
qed

lemma dt_diff_Inr: "dt_diff a b = Inr td \<Longrightarrow> td = instant a - instant b"
  by (auto simp: dt_diff_def instant_def split: option.splits)

lemma table_rows:
  assumes "parse_response fi rh p = Inr (Some rows)"
    and "StartTime p = Some s" and "fi s = Some st"
  shows "\<exists>tg r it.
           parse_iso fi (TimeGenerated p) = Inr tg
         \<and> it = (if instant tg < instant (plus_hours st (- 4)) then tg else plus_hours st (- 4))
         \<and> Results p = Some r
         \<and> py_max (present_lengths (GHI r) (POAI r)) = Inr (length rows)
         \<and> (\<forall>i<length rows.
                issue_time (rows ! i) = it
              \<and> interval_start (rows ! i) = plus_hours st (int i)
              \<and> interval_end (rows ! i) = plus_hours st (int i + 1)
              \<and> lead_time_hours (rows ! i) = rh (instant (plus_hours st (int i)) - instant it)
              \<and> row_GHI (rows ! i) = cell (GHI r) i
              \<and> row_POAI (rows ! i) = cell (POAI r) i)"
proof -
  from parse_response_table [OF assms(1)] obtain st' tg fb it r n starts ends leads where
    st': "parse_iso fi (StartTime p) = Inr st'"
    and tg: "parse_iso fi (TimeGenerated p) = Inr tg"
    and fb: "dt_sub_td st' (timedelta_hours 4) = Inr fb"
    and it: "py_min fb tg = Inr it"
    and r: "Results p = Some r"
    and n: "py_max (present_lengths (GHI r) (POAI r)) = Inr n"
    and starts: "comprehension (\<lambda>i. dt_add st' (timedelta_minutes (int i * 60))) [0..<n] = Inr starts"
    and ends: "comprehension (\<lambda>s. dt_add s (timedelta_minutes 60)) starts = Inr ends"
    and leads: "comprehension (\<lambda>s. bind_err (dt_diff s it) (\<lambda>td. Inr (rh td))) starts = Inr leads"
    and df: "DataFrame it starts ends leads (GHI r) (POAI r) = Inr rows"
    by blast
  have st_eq: "st' = st"
    using st' assms(2,3) by (simp add: parse_iso_def)
  have fb_eq: "fb = plus_hours st (- 4)"
    using dt_add_Inr [of st "- timedelta_hours 4" fb] fb
    by (simp add: st_eq dt_sub_td_def plus_hours_def timedelta_hours_def)
  have it_eq: "it = (if instant tg < instant (plus_hours st (- 4)) then tg else plus_hours st (- 4))"
    using py_min_Inr [OF it] by (simp add: fb_eq)
  have len_starts: "length starts = n"
    using comprehension_length [OF starts] by simp
  have len_rows: "length rows = n"
    using DataFrame_Inr(1) [OF df] len_starts by simp
  have start_i: "starts ! i = plus_hours st (int i)" if "i < n" for i
    using comprehension_nth [OF starts, of i] that
      dt_add_Inr [of st "timedelta_minutes (int i * 60)" "starts ! i"]
    by (simp add: st_eq plus_hours_def timedelta_minutes_def)
  have end_i: "ends ! i = plus_hours st (int i + 1)" if "i < n" for i
    using comprehension_nth [OF ends, of i] that len_starts
      dt_add_Inr [of "starts ! i" "timedelta_minutes 60" "ends ! i"]
    by (simp add: start_i plus_hours_def timedelta_minutes_def algebra_simps)
  have lead_i: "leads ! i = rh (instant (plus_hours st (int i)) - instant it)" if "i < n" for i
  proof -
    from comprehension_nth [OF leads, of i] that len_starts
    have "bind_err (dt_diff (starts ! i) it) (\<lambda>td. Inr (rh td)) = Inr (leads ! i)"
      by simp
    then obtain td where "dt_diff (starts ! i) it = Inr td" and "leads ! i = rh td"
      by (auto simp: bind_err_def split: sum.splits)
    then show ?thesis
      using dt_diff_Inr [of "starts ! i" it td] start_i [OF that] by simp
  qed
  have row_i: "rows ! i = \<lparr>issue_time = it, interval_start = starts ! i,
                     interval_end = ends ! i, lead_time_hours = leads ! i,
                     row_GHI = cell (GHI r) i, row_POAI = cell (POAI r) i\<rparr>" if "i < n" for i
    using DataFrame_Inr(6) [OF df, of i] that len_starts by simp
  have all: "\<forall>i<length rows.
                issue_time (rows ! i) = it
              \<and> interval_start (rows ! i) = plus_hours st (int i)
              \<and> interval_end (rows ! i) = plus_hours st (int i + 1)
              \<and> lead_time_hours (rows ! i) = rh (instant (plus_hours st (int i)) - instant it)
              \<and> row_GHI (rows ! i) = cell (GHI r) i
              \<and> row_POAI (rows ! i) = cell (POAI r) i"
    by (simp add: len_rows row_i start_i end_i lead_i)
  have n': "py_max (present_lengths (GHI r) (POAI r)) = Inr (length rows)"
    using n len_rows by simp
  from tg it_eq r n' all show ?thesis
    by blast
qed

lemma table_field_lengths:
  assumes "parse_response fi rh p = Inr (Some rows)" and "Results p = Some r"
  shows "GHI r = Some xs \<Longrightarrow> length xs = length rows"
    and "POAI r = Some ys \<Longrightarrow> length ys = length rows"
proof -
  from parse_response_table [OF assms(1)] obtain it r' starts ends leads where
    r': "Results p = Some r'"
    and df: "DataFrame it starts ends leads (GHI r') (POAI r') = Inr rows"
    by blast
  have "r' = r" using r' assms(2) by simp
  with DataFrame_Inr(1,4,5) [OF df]
  show "GHI r = Some xs \<Longrightarrow> length xs = length rows"
    and "POAI r = Some ys \<Longrightarrow> length ys = length rows"
    by simp_all
qed

text \<open>
  C2. Whenever \<open>parse_response\<close> returns a table, the issue time in each of its rows is
  the earlier of the two instants "four hours before the start time" and "time
  generated": the time generated when the call was made more than four hours ahead of the
  first interval, and the start time less four hours otherwise (also when the two
  instants are equal).
\<close>

theorem issue_time_is_min:
  assumes "parse_response fromisoformat round_hours res_json = Inr (Some rows)"
    and "StartTime res_json = Some s" and "fromisoformat s = Some start_time"
    and "TimeGenerated res_json = Some g" and "fromisoformat g = Some time_generated"
    and "row \<in> set rows"
  shows "issue_time row =
           (if instant time_generated < instant (plus_hours start_time (- 4))
            then time_generated else plus_hours start_time (- 4))"
proof -
  from table_rows [OF assms(1,2,3)] obtain tg where
    tg: "parse_iso fromisoformat (TimeGenerated res_json) = Inr tg"
    and rows: "\<forall>i<length rows. issue_time (rows ! i) =
                 (if instant tg < instant (plus_hours start_time (- 4)) then tg
                  else plus_hours start_time (- 4))"
    by auto
  have tg_eq: "tg = time_generated"
    using tg assms(4,5) by (simp add: parse_iso_def)
  from assms(6) obtain i where "i < length rows" and "row = rows ! i"
    by (auto simp: in_set_conv_nth)
  then show ?thesis
    using rows tg_eq by simp
qed

lemma table_parsed:
  assumes "parse_response fi rh p = Inr (Some rows)"
  shows "\<exists>s st. StartTime p = Some s \<and> fi s = Some st"
proof -
  from parse_response_table [OF assms] obtain st where "parse_iso fi (StartTime p) = Inr st"
    by blast
  then show ?thesis
    by (auto simp: parse_iso_def split: option.splits)
qed

lemma plus_hours_simps [simp]:
  "micros (plus_hours d n) = micros d + n * 3600000000"
  "utcoffset (plus_hours d n) = utcoffset d"
  "instant (plus_hours d n) = instant d + n * 3600000000"
  by (simp_all add: plus_hours_def instant_def)

lemma plus_hours_plus_hours: "plus_hours (plus_hours d m) n = plus_hours d (m + n)"
  by (simp add: plus_hours_def algebra_simps)

text \<open>
  C3. Whenever \<open>parse_response\<close> returns a table, the table has \<open>num_intervals\<close> rows;
  row \<open>i\<close> starts \<open>i\<close> hours after the start time of the payload and ends one hour
  after it starts; and each row starts where the row before it ends, later than that
  row starts.
\<close>

theorem intervals_hourly_contiguous:
  assumes "parse_response fromisoformat round_hours res_json = Inr (Some rows)"
    and "StartTime res_json = Some s" and "fromisoformat s = Some start_time"
    and "Results res_json = Some r"
  shows "length rows = num_intervals r
       \<and> (\<forall>i<length rows.
             interval_start (rows ! i) = plus_hours start_time (int i)
           \<and> interval_end (rows ! i) = plus_hours (interval_start (rows ! i)) 1
           \<and> instant (interval_end (rows ! i)) - instant (interval_start (rows ! i))
               = timedelta_hours 1)
       \<and> (\<forall>i. Suc i < length rows \<longrightarrow>
             interval_start (rows ! Suc i) = interval_end (rows ! i)
           \<and> instant (interval_start (rows ! i)) < instant (interval_start (rows ! Suc i)))"
proof -
  from table_rows [OF assms(1,2,3)] obtain r' where
    r': "Results res_json = Some r'"
    and n: "py_max (present_lengths (GHI r') (POAI r')) = Inr (length rows)"
    and rows: "\<forall>i<length rows.
                 interval_start (rows ! i) = plus_hours start_time (int i)
               \<and> interval_end (rows ! i) = plus_hours start_time (int i + 1)"
    by auto
  have "r' = r" using r' assms(4) by simp
  then have len: "length rows = num_intervals r"
    using py_max_present [OF n] by simp
  have hourly: "interval_start (rows ! i) = plus_hours start_time (int i)
           \<and> interval_end (rows ! i) = plus_hours (interval_start (rows ! i)) 1
           \<and> instant (interval_end (rows ! i)) - instant (interval_start (rows ! i))
               = timedelta_hours 1" if "i < length rows" for i
    using rows that by (simp add: plus_hours_plus_hours timedelta_hours_def)
  have contiguous: "interval_start (rows ! Suc i) = interval_end (rows ! i)
           \<and> instant (interval_start (rows ! i)) < instant (interval_start (rows ! Suc i))"
    if "Suc i < length rows" for i
  proof -
    from that have "i < length rows" by simp
    with rows that show ?thesis
      by (simp add: algebra_simps)
  qed
  from len hourly contiguous show ?thesis by blast
qed

text \<open>The output fields in a table that is returned.\<close>

lemma table_fields:
  "(GHI r \<noteq> None \<or> POAI r \<noteq> None \<longrightarrow>
      py_max (present_lengths (GHI r) (POAI r)) = Inr (num_intervals r))
   \<and> (parse_response fromisoformat round_hours res_json = Inr (Some rows)
        \<and> Results res_json = Some r \<longrightarrow>
          (GHI r \<noteq> None \<or> POAI r \<noteq> None)
        \<and> length rows = num_intervals r
        \<and> (GHI r = None \<longrightarrow> (\<forall>row \<in> set rows. row_GHI row = None))
        \<and> (POAI r = None \<longrightarrow> (\<forall>row \<in> set rows. row_POAI row = None))
        \<and> (\<forall>xs. GHI r = Some xs \<longrightarrow> map row_GHI rows = map Some xs)
        \<and> (\<forall>ys. POAI r = Some ys \<longrightarrow> map row_POAI rows = map Some ys))"
proof (intro conjI impI)
  assume "GHI r \<noteq> None \<or> POAI r \<noteq> None"
  then show "py_max (present_lengths (GHI r) (POAI r)) = Inr (num_intervals r)"
    by (cases "GHI r"; cases "POAI r")
      (auto simp: present_lengths_def num_intervals_def List.map_filter_def max.commute)
next
  assume asm: "parse_response fromisoformat round_hours res_json = Inr (Some rows)
        \<and> Results res_json = Some r"
  then have table: "parse_response fromisoformat round_hours res_json = Inr (Some rows)"
    and r: "Results res_json = Some r"
    by simp_all
  from table_parsed [OF table] obtain s st where
    s: "StartTime res_json = Some s" and st: "fromisoformat s = Some st"
    by blast
  from table_rows [OF table s st] obtain r' where
    r': "Results res_json = Some r'"
    and n: "py_max (present_lengths (GHI r') (POAI r')) = Inr (length rows)"
    and rows: "\<forall>i<length rows. row_GHI (rows ! i) = cell (GHI r') i
                 \<and> row_POAI (rows ! i) = cell (POAI r') i"
    by auto
  have r_eq: "r' = r" using r' r by simp
  show "GHI r \<noteq> None \<or> POAI r \<noteq> None"
    using n r_eq
    by (cases "GHI r"; cases "POAI r") (auto simp: present_lengths_def List.map_filter_def)
  show "length rows = num_intervals r"
    using py_max_present [OF n] r_eq by simp
  show "\<forall>row \<in> set rows. row_GHI row = None" if "GHI r = None"
    using rows that r_eq by (auto simp: in_set_conv_nth cell_def)
  show "\<forall>row \<in> set rows. row_POAI row = None" if "POAI r = None"
    using rows that r_eq by (auto simp: in_set_conv_nth cell_def)
  show "\<forall>xs. GHI r = Some xs \<longrightarrow> map row_GHI rows = map Some xs"
  proof (intro allI impI)
    fix xs assume xs: "GHI r = Some xs"
    from table_field_lengths(1) [OF table r xs] have "length xs = length rows" .
    then show "map row_GHI rows = map Some xs"
      using rows xs r_eq by (auto simp: list_eq_iff_nth_eq cell_def)
  qed
  show "\<forall>ys. POAI r = Some ys \<longrightarrow> map row_POAI rows = map Some ys"
  proof (intro allI impI)
    fix ys assume ys: "POAI r = Some ys"
    from table_field_lengths(2) [OF table r ys] have "length ys = length rows" .
    then show "map row_POAI rows = map Some ys"
      using rows ys r_eq by (auto simp: list_eq_iff_nth_eq cell_def)
  qed
qed


subsection \<open>The scenarios, evaluated\<close>

lemmas float_defs =
  py_round_hours_def quotient_hours_def total_seconds_def py_round2_def hundredths_def
  float_div_def nearest_double_def round_half_even_def floor_log2_def double_value_def Let_def

lemma py_round_hours_scenarios:
  "py_round_hours 25200000000 = 7"
  "py_round_hours 28800000000 = 8"
  "py_round_hours 32400000000 = 9"
  "py_round_hours 14400000000 = 4"
  "py_round_hours 18000000000 = 5"
  "py_round_hours 14454000000 = 2257429313219461 / 562949953421312"
  by (simp_all add: float_defs)

lemmas scenario_defs =
  parse_response_def bind_err_def parse_iso_def scenario_fromisoformat_def feb14_def feb14s_def
  dec31_9999_def py_round_hours_scenarios
  dt_sub_td_def dt_add_def py_min_def dt_less_def dt_diff_def
  timedelta_hours_def timedelta_minutes_def max_micros_def present_lengths_def
  List.map_filter_def DataFrame_def raw_lengths_def cell_def Let_def
  early_call_results_def late_call_results_def no_fields_results_def unequal_results_def

lemma early_call_table:
  "parse_response scenario_fromisoformat py_round_hours early_call_payload =
     Inr (Some early_call_rows)"
  by (simp add: early_call_payload_def early_call_rows_def scenario_defs)

lemma late_call_table:
  "parse_response scenario_fromisoformat py_round_hours late_call_payload =
     Inr (Some late_call_rows)"
  by (simp add: late_call_payload_def late_call_rows_def scenario_defs)

theorem issue_time_is_min_witness:
  "parse_response scenario_fromisoformat py_round_hours early_call_payload
      = Inr (Some early_call_rows)
   \<and> issue_time (early_call_rows ! 0) = feb14 2 0
   \<and> parse_response scenario_fromisoformat py_round_hours late_call_payload
      = Inr (Some late_call_rows)
   \<and> issue_time (late_call_rows ! 0) = feb14 5 0"
proof -
  have early: "issue_time (early_call_rows ! 0) = feb14 2 0"
    using issue_time_is_min [OF early_call_table, of "''2024-02-14T09:00:00+00:00''" "feb14 9 0"
        "''2024-02-14T02:00:00+00:00''" "feb14 2 0" "early_call_rows ! 0"]
    by (simp add: early_call_payload_def early_call_rows_def scenario_fromisoformat_def
        instant_def plus_hours_def feb14_def feb14s_def)
  have late: "issue_time (late_call_rows ! 0) = feb14 5 0"
    using issue_time_is_min [OF late_call_table, of "''2024-02-14T09:00:00+00:00''" "feb14 9 0"
        "''2024-02-14T07:30:00+00:00''" "feb14 7 30" "late_call_rows ! 0"]
    by (simp add: late_call_payload_def late_call_rows_def scenario_fromisoformat_def
        instant_def plus_hours_def feb14_def feb14s_def)
  from early late early_call_table late_call_table show ?thesis by simp
qed

theorem intervals_hourly_contiguous_witness:
  "parse_response scenario_fromisoformat py_round_hours early_call_payload
      = Inr (Some early_call_rows)
   \<and> StartTime early_call_payload = Some ''2024-02-14T09:00:00+00:00''
   \<and> scenario_fromisoformat ''2024-02-14T09:00:00+00:00'' = Some (feb14 9 0)
   \<and> Results early_call_payload = Some early_call_results
   \<and> length early_call_rows = 3
   \<and> num_intervals early_call_results = 3
   \<and> interval_start (early_call_rows ! 2) = plus_hours (feb14 9 0) 2
   \<and> interval_end (early_call_rows ! 2) = plus_hours (interval_start (early_call_rows ! 2)) 1
   \<and> interval_start (early_call_rows ! 2) = interval_end (early_call_rows ! 1)"
proof -
  have s: "StartTime early_call_payload = Some ''2024-02-14T09:00:00+00:00''"
    by (simp add: early_call_payload_def)
  have st: "scenario_fromisoformat ''2024-02-14T09:00:00+00:00'' = Some (feb14 9 0)"
    by (simp add: scenario_fromisoformat_def)
  have r: "Results early_call_payload = Some early_call_results"
    by (simp add: early_call_payload_def)
  note inst = intervals_hourly_contiguous [OF early_call_table s st r]
  have len: "length early_call_rows = 3"
    by (simp add: early_call_rows_def)
  from inst have num: "num_intervals early_call_results = 3"
    using len by simp
  from inst len have row2: "interval_start (early_call_rows ! 2) = plus_hours (feb14 9 0) 2
      \<and> interval_end (early_call_rows ! 2) = plus_hours (interval_start (early_call_rows ! 2)) 1"
    by simp
  from inst [THEN conjunct2, THEN conjunct2, rule_format, of 1] len
  have next_row: "interval_start (early_call_rows ! 2) = interval_end (early_call_rows ! 1)"
    by (simp add: numeral_2_eq_2)
  from early_call_table s st r len num row2 next_row show ?thesis
    by simp
qed

text \<open>
  C6. A payload whose status is \<open>Pending\<close> gives the pending signal, Python's \<open>None\<close>:
  no table and no exception, whatever else the payload holds and whatever the parser
  and the float rounding do.
\<close>

theorem pending_returns_none:
  "Status res_json = Some ''Pending''
     \<Longrightarrow> parse_response fromisoformat round_hours res_json = Inr None"
  by (simp add: parse_response_def)

theorem pending_returns_none_witness:
  "Status pending_payload = Some ''Pending''
     \<and> parse_response scenario_fromisoformat py_round_hours pending_payload = Inr None"
  using pending_returns_none [of pending_payload scenario_fromisoformat py_round_hours]
  by (simp add: pending_payload_def)

subsection \<open>Calls that raise\<close>

lemma comprehension_map:
  "(\<And>x. x \<in> set xs \<Longrightarrow> f x = Inr (g x)) \<Longrightarrow> comprehension f xs = Inr (map g xs)"
  by (induction xs) (simp_all add: bind_err_def)

lemma remdups_two_distinct:
  "a \<in> set ns \<Longrightarrow> b \<in> set ns \<Longrightarrow> a \<noteq> b \<Longrightarrow> 1 < length (remdups ns)"
  using remdups_le_one_eq [of ns a b] by blast

lemma not_pending_no_None:
  assumes "Status p \<noteq> Some ''Pending''"
  shows "parse_response fi rh p \<noteq> Inr None"
proof
  assume "parse_response fi rh p = Inr None"
  from parse_response_Inr [OF this assms] show False by simp
qed

text \<open>
  C7, as stated, fails: a payload that is not pending, with neither GHI nor POAI and
  without a start time, makes \<open>parse_response\<close> raise the \<open>TypeError\<close> of
  \<open>fromisoformat\<close>, before the output fields are read.
\<close>

theorem no_output_fields_counterexample:
  "Status no_start_payload = Some ''Complete''
   \<and> StartTime no_start_payload = None
   \<and> Results no_start_payload = Some no_fields_results
   \<and> GHI no_fields_results = None \<and> POAI no_fields_results = None
   \<and> parse_response scenario_fromisoformat py_round_hours no_start_payload
       = Inl (TypeError Fromisoformat_not_str)"
  by (simp add: no_start_payload_def no_fields_results_def parse_response_def parse_iso_def
      bind_err_def)

text \<open>
  C7, amended. A payload that is not pending and whose results hold neither GHI nor POAI
  makes \<open>parse_response\<close> raise: no table comes back, with zero rows or otherwise. When
  the two times parse, are both offset-aware or both offset-naive, and the start time is
  at least four hours into the range of datetimes, the exception is the \<open>ValueError\<close>
  that \<open>max\<close> raises on the empty list of lengths; otherwise an earlier step raises.
\<close>

theorem no_output_fields_fails:
  assumes "Status res_json \<noteq> Some ''Pending''"
    and "Results res_json = Some r" and "GHI r = None" and "POAI r = None"
  shows "(\<exists>e. parse_response fromisoformat round_hours res_json = Inl e)
       \<and> (\<forall>s start_time g time_generated.
             StartTime res_json = Some s \<and> fromisoformat s = Some start_time
           \<and> TimeGenerated res_json = Some g \<and> fromisoformat g = Some time_generated
           \<and> timedelta_hours 4 \<le> micros start_time \<and> micros start_time < max_micros
           \<and> (utcoffset start_time = None \<longleftrightarrow> utcoffset time_generated = None)
           \<longrightarrow> parse_response fromisoformat round_hours res_json
                 = Inl (ValueError Max_empty_sequence))"
proof (intro conjI allI impI)
  show "\<exists>e. parse_response fromisoformat round_hours res_json = Inl e"
  proof (cases "parse_response fromisoformat round_hours res_json")
    case (Inl e)
    then show ?thesis by blast
  next
    case (Inr res)
    from parse_response_Inr [OF Inr assms(1)] obtain r' n where
      "Results res_json = Some r'" and "py_max (present_lengths (GHI r') (POAI r')) = Inr n"
      by blast
    with assms(2,3,4) show ?thesis
      by (simp add: present_lengths_def List.map_filter_def)
  qed
next
  fix s start_time g time_generated
  assume "StartTime res_json = Some s \<and> fromisoformat s = Some start_time
           \<and> TimeGenerated res_json = Some g \<and> fromisoformat g = Some time_generated
           \<and> timedelta_hours 4 \<le> micros start_time \<and> micros start_time < max_micros
           \<and> (utcoffset start_time = None \<longleftrightarrow> utcoffset time_generated = None)"
  with assms show "parse_response fromisoformat round_hours res_json
                 = Inl (ValueError Max_empty_sequence)"
    by (cases "utcoffset time_generated")
      (auto simp: parse_response_def bind_err_def parse_iso_def dt_sub_td_def dt_add_def
        py_min_def dt_less_def present_lengths_def List.map_filter_def Let_def
        timedelta_hours_def max_micros_def)
qed

lemma bind_err_simps:
  "bind_err (Inr x) f = f x"
  "bind_err (Inl e) f = Inl e"
  by (simp_all add: bind_err_def)

lemma py_min_same_awareness:
  assumes "utcoffset a = None \<longleftrightarrow> utcoffset b = None"
  shows "py_min a b = Inr (if instant b < instant a then b else a)"
  using assms
  by (cases "utcoffset a"; cases "utcoffset b")
    (auto simp: py_min_def bind_err_def dt_less_def instant_def)

lemma dt_diff_same_awareness:
  assumes "utcoffset a = None \<longleftrightarrow> utcoffset b = None"
  shows "dt_diff a b = Inr (instant a - instant b)"
  using assms
  by (cases "utcoffset a"; cases "utcoffset b") (auto simp: dt_diff_def instant_def)

lemma dt_add_in_range:
  assumes "0 \<le> micros d + n * 3600000000" and "micros d + n * 3600000000 < max_micros"
  shows "dt_add d (n * 3600000000) = Inr (plus_hours d n)"
  using assms by (simp add: dt_add_def plus_hours_def)

lemma parse_response_frame:
  assumes np: "Status p \<noteq> Some ''Pending''"
    and s: "StartTime p = Some s" and st: "fi s = Some st"
    and g: "TimeGenerated p = Some g" and tg: "fi g = Some tg"
    and r: "Results p = Some r"
    and n: "py_max (present_lengths (GHI r) (POAI r)) = Inr n"
    and lo: "timedelta_hours 4 \<le> micros st"
    and hi: "micros st + timedelta_hours (int n) < max_micros"
    and aw: "utcoffset st = None \<longleftrightarrow> utcoffset tg = None"
  shows "\<exists>it starts ends leads.
           length starts = n \<and> length ends = n \<and> length leads = n
         \<and> parse_response fi rh p =
             bind_err (DataFrame it starts ends leads (GHI r) (POAI r)) (\<lambda>rows. Inr (Some rows))"
proof -
  define fb where "fb = plus_hours st (- 4)"
  define it where "it = (if instant tg < instant fb then tg else fb)"
  define starts where "starts = map (\<lambda>i. plus_hours st (int i)) [0..<n]"
  define ends where "ends = map (\<lambda>d. plus_hours d 1) starts"
  define leads where "leads = map (\<lambda>d. rh (instant d - instant it)) starts"
  from lo hi have hi0: "micros st < max_micros"
    by (simp add: timedelta_hours_def)
  have 1: "parse_iso fi (StartTime p) = Inr st"
    by (simp add: parse_iso_def s st)
  have 2: "parse_iso fi (TimeGenerated p) = Inr tg"
    by (simp add: parse_iso_def g tg)
  have 3: "dt_sub_td st (timedelta_hours 4) = Inr fb"
    using lo hi0 dt_add_in_range [of st "- 4"]
    by (simp add: dt_sub_td_def fb_def timedelta_hours_def)
  have aw_fb: "utcoffset fb = None \<longleftrightarrow> utcoffset tg = None"
    using aw by (simp add: fb_def)
  have 4: "py_min fb tg = Inr it"
    using py_min_same_awareness [OF aw_fb] by (simp add: it_def)
  have aw_it: "utcoffset it = None \<longleftrightarrow> utcoffset st = None"
    using aw by (simp add: it_def fb_def)
  have 5: "comprehension (\<lambda>i. dt_add st (timedelta_minutes (int i * 60))) [0..<n] = Inr starts"
    unfolding starts_def
  proof (rule comprehension_map)
    fix i assume "i \<in> set [0..<n]"
    then have "i < n" by simp
    then have "micros st + int i * 3600000000 < max_micros"
      using hi by (simp add: timedelta_hours_def)
    moreover have "0 \<le> micros st + int i * 3600000000"
      using lo by (simp add: timedelta_hours_def)
    moreover have "timedelta_minutes (int i * 60) = int i * 3600000000"
      by (simp add: timedelta_minutes_def)
    ultimately show "dt_add st (timedelta_minutes (int i * 60)) = Inr (plus_hours st (int i))"
      using dt_add_in_range [of st "int i"] by simp
  qed
  have 6: "comprehension (\<lambda>d. dt_add d (timedelta_minutes 60)) starts = Inr ends"
    unfolding ends_def
  proof (rule comprehension_map)
    fix d assume "d \<in> set starts"
    then obtain i where i: "i < n" and d: "d = plus_hours st (int i)"
      by (auto simp: starts_def)
    from i have "int i + 1 \<le> int n" by simp
    then have "(int i + 1) * 3600000000 \<le> int n * 3600000000" by simp
    then have "micros d + 1 * 3600000000 < max_micros"
      using hi by (simp add: d timedelta_hours_def algebra_simps)
    moreover have "0 \<le> micros d + 1 * 3600000000"
      using lo by (simp add: d timedelta_hours_def)
    ultimately show "dt_add d (timedelta_minutes 60) = Inr (plus_hours d 1)"
      using dt_add_in_range [of d 1] by (simp add: timedelta_minutes_def)
  qed
  have 7: "comprehension (\<lambda>d. bind_err (dt_diff d it) (\<lambda>td. Inr (rh td))) starts = Inr leads"
    unfolding leads_def
  proof (rule comprehension_map)
    fix d assume "d \<in> set starts"
    then have "utcoffset d = utcoffset st"
      by (auto simp: starts_def)
    then have "utcoffset d = None \<longleftrightarrow> utcoffset it = None"
      using aw_it by simp
    from dt_diff_same_awareness [OF this]
    show "bind_err (dt_diff d it) (\<lambda>td. Inr (rh td)) = Inr (rh (instant d - instant it))"
      by (simp add: bind_err_def)
  qed
  have "parse_response fi rh p =
          bind_err (DataFrame it starts ends leads (GHI r) (POAI r)) (\<lambda>rows. Inr (Some rows))"
    by (simp add: parse_response_def np 1 2 3 4 5 6 7 r n bind_err_simps)
  moreover have "length starts = n" "length ends = n" "length leads = n"
    by (simp_all add: starts_def ends_def leads_def)
  ultimately show ?thesis by blast
qed

text \<open>
  C10. A payload that is not pending and whose GHI and POAI are both present with
  different lengths makes \<open>parse_response\<close> raise: the shorter field is not padded and
  no table comes back. When the two times parse, are both offset-aware or both
  offset-naive, and every interval lies in the range of datetimes, the exception is the
  \<open>ValueError\<close> with which the data frame constructor rejects columns of different
  lengths.
\<close>

theorem unequal_lengths_fail:
  assumes "Status res_json \<noteq> Some ''Pending''"
    and "Results res_json = Some r"
    and "GHI r = Some xs" and "POAI r = Some ys" and "length xs \<noteq> length ys"
  shows "(\<exists>e. parse_response fromisoformat round_hours res_json = Inl e)
       \<and> (\<forall>s start_time g time_generated.
             StartTime res_json = Some s \<and> fromisoformat s = Some start_time
           \<and> TimeGenerated res_json = Some g \<and> fromisoformat g = Some time_generated
           \<and> timedelta_hours 4 \<le> micros start_time
           \<and> micros start_time + timedelta_hours (int (max (length xs) (length ys))) < max_micros
           \<and> (utcoffset start_time = None \<longleftrightarrow> utcoffset time_generated = None)
           \<longrightarrow> parse_response fromisoformat round_hours res_json
                 = Inl (ValueError Arrays_not_same_length))"
proof (intro conjI allI impI)
  show "\<exists>e. parse_response fromisoformat round_hours res_json = Inl e"
  proof (cases "parse_response fromisoformat round_hours res_json")
    case (Inl e)
    then show ?thesis by blast
  next
    case (Inr res)
    from parse_response_Inr [OF Inr assms(1)] obtain it r' starts ends leads rows where
      "res = Some rows"
      and r': "Results res_json = Some r'"
      and df: "DataFrame it starts ends leads (GHI r') (POAI r') = Inr rows"
      by blast
    have "r' = r" using r' assms(2) by simp
    with DataFrame_Inr(4,5) [OF df] assms(3,4) have "length xs = length ys"
      by simp
    with assms(5) show ?thesis by simp
  qed
next
  fix s start_time g time_generated
  assume a: "StartTime res_json = Some s \<and> fromisoformat s = Some start_time
           \<and> TimeGenerated res_json = Some g \<and> fromisoformat g = Some time_generated
           \<and> timedelta_hours 4 \<le> micros start_time
           \<and> micros start_time + timedelta_hours (int (max (length xs) (length ys))) < max_micros
           \<and> (utcoffset start_time = None \<longleftrightarrow> utcoffset time_generated = None)"
  have n: "py_max (present_lengths (GHI r) (POAI r)) = Inr (max (length xs) (length ys))"
    using assms(3,4) by (simp add: present_lengths_def List.map_filter_def max.commute)
  from a have s: "StartTime res_json = Some s" and st: "fromisoformat s = Some start_time"
    and g: "TimeGenerated res_json = Some g" and tg: "fromisoformat g = Some time_generated"
    and lo: "timedelta_hours 4 \<le> micros start_time"
    and hi: "micros start_time + timedelta_hours (int (max (length xs) (length ys))) < max_micros"
    and aw: "utcoffset start_time = None \<longleftrightarrow> utcoffset time_generated = None"
    by simp_all
  from parse_response_frame [OF assms(1) s st g tg assms(2) n lo hi aw, of round_hours]
  obtain it starts ends leads where
    eq: "parse_response fromisoformat round_hours res_json =
           bind_err (DataFrame it starts ends leads (GHI r) (POAI r)) (\<lambda>rows. Inr (Some rows))"
    by blast
  have "1 < length (remdups (raw_lengths starts ends leads (GHI r) (POAI r)))"
    by (rule remdups_two_distinct [of "length xs" _ "length ys"])
      (simp_all add: raw_lengths_def assms(3,4,5))
  then show "parse_response fromisoformat round_hours res_json
                 = Inl (ValueError Arrays_not_same_length)"
    by (simp add: eq DataFrame_def bind_err_simps)
qed

theorem no_output_fields_fails_witness:
  "Status no_fields_payload = Some ''Complete''
   \<and> Results no_fields_payload = Some no_fields_results
   \<and> GHI no_fields_results = None \<and> POAI no_fields_results = None
   \<and> parse_response scenario_fromisoformat py_round_hours no_fields_payload
       = Inl (ValueError Max_empty_sequence)"
proof -
  have status: "Status no_fields_payload = Some ''Complete''"
    and r: "Results no_fields_payload = Some no_fields_results"
    and s: "StartTime no_fields_payload = Some ''2024-02-14T09:00:00+00:00''"
    and g: "TimeGenerated no_fields_payload = Some ''2024-02-14T02:00:00+00:00''"
    by (simp_all add: no_fields_payload_def)
  have none: "GHI no_fields_results = None" "POAI no_fields_results = None"
    by (simp_all add: no_fields_results_def)
  have np: "Status no_fields_payload \<noteq> Some ''Pending''"
    by (simp add: status)
  have st: "scenario_fromisoformat ''2024-02-14T09:00:00+00:00'' = Some (feb14 9 0)"
    and tg: "scenario_fromisoformat ''2024-02-14T02:00:00+00:00'' = Some (feb14 2 0)"
    by (simp_all add: scenario_fromisoformat_def)
  have range: "timedelta_hours 4 \<le> micros (feb14 9 0)" "micros (feb14 9 0) < max_micros"
    "utcoffset (feb14 9 0) = None \<longleftrightarrow> utcoffset (feb14 2 0) = None"
    by (simp_all add: feb14_def feb14s_def timedelta_hours_def max_micros_def)
  from no_output_fields_fails [OF np r none, of scenario_fromisoformat py_round_hours,
      THEN conjunct2, rule_format, of "''2024-02-14T09:00:00+00:00''" "feb14 9 0"
      "''2024-02-14T02:00:00+00:00''" "feb14 2 0"] s st g tg range
  have "parse_response scenario_fromisoformat py_round_hours no_fields_payload
       = Inl (ValueError Max_empty_sequence)"
    by blast
  with status r none show ?thesis by simp
qed

theorem unequal_lengths_fail_witness:
  "Status unequal_payload = Some ''Complete''
   \<and> Results unequal_payload = Some unequal_results
   \<and> GHI unequal_results = Some [[10, 50, 90], [11, 51, 91], [12, 52, 92]]
   \<and> POAI unequal_results = Some [[20, 60, 95], [21, 61, 96]]
   \<and> parse_response scenario_fromisoformat py_round_hours unequal_payload
       = Inl (ValueError Arrays_not_same_length)"
proof -
  have status: "Status unequal_payload = Some ''Complete''"
    and r: "Results unequal_payload = Some unequal_results"
    and s: "StartTime unequal_payload = Some ''2024-02-14T09:00:00+00:00''"
    and g: "TimeGenerated unequal_payload = Some ''2024-02-14T02:00:00+00:00''"
    by (simp_all add: unequal_payload_def)
  have ghi: "GHI unequal_results = Some [[10, 50, 90], [11, 51, 91], [12, 52, 92]]"
    and poai: "POAI unequal_results = Some [[20, 60, 95], [21, 61, 96]]"
    by (simp_all add: unequal_results_def)
  have np: "Status unequal_payload \<noteq> Some ''Pending''"
    by (simp add: status)
  have ne: "length [[10, 50, 90], [11, 51, 91], [12, 52, 92::nat]]
              \<noteq> length [[20, 60, 95], [21, 61, 96::nat]]"
    by simp
  have st: "scenario_fromisoformat ''2024-02-14T09:00:00+00:00'' = Some (feb14 9 0)"
    and tg: "scenario_fromisoformat ''2024-02-14T02:00:00+00:00'' = Some (feb14 2 0)"
    by (simp_all add: scenario_fromisoformat_def)
  have range: "timedelta_hours 4 \<le> micros (feb14 9 0)"
    "micros (feb14 9 0)
       + timedelta_hours (int (max (length [[10, 50, 90], [11, 51, 91], [12, 52, 92::nat]])
                                   (length [[20, 60, 95], [21, 61, 96::nat]]))) < max_micros"
    "utcoffset (feb14 9 0) = None \<longleftrightarrow> utcoffset (feb14 2 0) = None"
    by (simp_all add: feb14_def feb14s_def timedelta_hours_def max_micros_def)
  from unequal_lengths_fail [OF np r ghi poai ne, of scenario_fromisoformat py_round_hours,
      THEN conjunct2, rule_format, of "''2024-02-14T09:00:00+00:00''" "feb14 9 0"
      "''2024-02-14T02:00:00+00:00''" "feb14 2 0"] s st g tg range
  have "parse_response scenario_fromisoformat py_round_hours unequal_payload
       = Inl (ValueError Arrays_not_same_length)"
    by blast
  with status r ghi poai show ?thesis by simp
qed

subsection \<open>The result of a call, exactly\<close>

lemma py_max_num_intervals:
  assumes "GHI r \<noteq> None \<or> POAI r \<noteq> None"
  shows "py_max (present_lengths (GHI r) (POAI r)) = Inr (num_intervals r)"
  using assms
  by (cases "GHI r"; cases "POAI r")
    (auto simp: present_lengths_def num_intervals_def List.map_filter_def max.commute)

lemma remdups_all_equal:
  assumes "set ns \<subseteq> {n}"
  shows "\<not> 1 < length (remdups ns)"
proof -
  have "card (set ns) \<le> card {n}"
    using assms by (intro card_mono) simp_all
  then show ?thesis
    by (simp add: length_remdups_card_conv)
qed

lemma cell_map_option: "cell col i = map_option (\<lambda>xs. xs ! i) col"
  by (cases col) (simp_all add: cell_def)

lemma equal_fields_lengths:
  assumes "\<not> unequal_fields r" and "GHI r \<noteq> None \<or> POAI r \<noteq> None"
  shows "GHI r = Some xs \<Longrightarrow> length xs = num_intervals r"
    and "POAI r = Some ys \<Longrightarrow> length ys = num_intervals r"
  using assms
  by (cases "GHI r"; cases "POAI r"; simp add: unequal_fields_def num_intervals_def)+

lemma dt_add_Inl: "dt_add d td = Inl e \<Longrightarrow> e = OverflowError"
  by (auto simp: dt_add_def Let_def split: if_splits)

lemma comprehension_Inl:
  "comprehension f xs = Inl e \<Longrightarrow> \<exists>x \<in> set xs. f x = Inl e"
  by (induction xs) (auto simp: bind_err_def split: sum.splits)

lemma parse_response_prefix:
  assumes np: "Status p \<noteq> Some ''Pending''"
    and s: "StartTime p = Some s" and st: "fi s = Some st"
    and g: "TimeGenerated p = Some g" and tg: "fi g = Some tg"
    and r: "Results p = Some r"
    and n: "py_max (present_lengths (GHI r) (POAI r)) = Inr n"
    and lo: "timedelta_hours 4 \<le> micros st"
    and hi: "micros st < max_micros"
    and aw: "utcoffset st = None \<longleftrightarrow> utcoffset tg = None"
  shows "parse_response fi rh p =
        bind_err (comprehension
                    (\<lambda>i. dt_add st (timedelta_minutes (int i * 60))) [0..<n]) (\<lambda>interval_starts.
        bind_err (comprehension (\<lambda>s. dt_add s (timedelta_minutes 60)) interval_starts)
          (\<lambda>interval_ends.
        bind_err (comprehension
                    (\<lambda>s. bind_err (dt_diff s (issue_time_of st tg)) (\<lambda>td. Inr (rh td)))
                    interval_starts) (\<lambda>lead_times.
        bind_err (DataFrame (issue_time_of st tg) interval_starts interval_ends lead_times
                    (GHI r) (POAI r)) (\<lambda>rows.
        Inr (Some rows)))))"
proof -
  have 1: "parse_iso fi (StartTime p) = Inr st"
    by (simp add: parse_iso_def s st)
  have 2: "parse_iso fi (TimeGenerated p) = Inr tg"
    by (simp add: parse_iso_def g tg)
  have 3: "dt_sub_td st (timedelta_hours 4) = Inr (plus_hours st (- 4))"
    using lo hi dt_add_in_range [of st "- 4"]
    by (simp add: dt_sub_td_def timedelta_hours_def)
  have "utcoffset (plus_hours st (- 4)) = None \<longleftrightarrow> utcoffset tg = None"
    using aw by simp
  from py_min_same_awareness [OF this]
  have 4: "py_min (plus_hours st (- 4)) tg = Inr (issue_time_of st tg)"
    by (simp add: issue_time_of_def)
  show ?thesis
    by (simp add: parse_response_def np 1 2 3 4 r n bind_err_simps)
qed

lemma starts_in_range:
  assumes lo: "timedelta_hours 4 \<le> micros st"
    and hi: "micros st + timedelta_hours (int n) < max_micros"
  shows "comprehension (\<lambda>i. dt_add st (timedelta_minutes (int i * 60))) [0..<n]
           = Inr (map (\<lambda>i. plus_hours st (int i)) [0..<n])"
proof (rule comprehension_map)
  fix i assume "i \<in> set [0..<n]"
  then have "i < n" by simp
  then have "micros st + int i * 3600000000 < max_micros"
    using hi by (simp add: timedelta_hours_def)
  moreover have "0 \<le> micros st + int i * 3600000000"
    using lo by (simp add: timedelta_hours_def)
  moreover have "timedelta_minutes (int i * 60) = int i * 3600000000"
    by (simp add: timedelta_minutes_def)
  ultimately show "dt_add st (timedelta_minutes (int i * 60)) = Inr (plus_hours st (int i))"
    using dt_add_in_range [of st "int i"] by simp
qed

lemma ends_in_range:
  assumes lo: "timedelta_hours 4 \<le> micros st"
    and hi: "micros st + timedelta_hours (int n) < max_micros"
  shows "comprehension (\<lambda>d. dt_add d (timedelta_minutes 60))
             (map (\<lambda>i. plus_hours st (int i)) [0..<n])
           = Inr (map (\<lambda>d. plus_hours d 1) (map (\<lambda>i. plus_hours st (int i)) [0..<n]))"
proof (rule comprehension_map)
  fix d assume "d \<in> set (map (\<lambda>i. plus_hours st (int i)) [0..<n])"
  then obtain i where i: "i < n" and d: "d = plus_hours st (int i)"
    by auto
  from i have "int i + 1 \<le> int n" by simp
  then have "(int i + 1) * 3600000000 \<le> int n * 3600000000" by simp
  then have "micros d + 1 * 3600000000 < max_micros"
    using hi by (simp add: d timedelta_hours_def algebra_simps)
  moreover have "0 \<le> micros d + 1 * 3600000000"
    using lo by (simp add: d timedelta_hours_def)
  ultimately show "dt_add d (timedelta_minutes 60) = Inr (plus_hours d 1)"
    using dt_add_in_range [of d 1] by (simp add: timedelta_minutes_def)
qed

lemma leads_same_awareness:
  assumes "utcoffset it = None \<longleftrightarrow> utcoffset st = None"
  shows "comprehension (\<lambda>d. bind_err (dt_diff d it) (\<lambda>td. Inr (rh td)))
             (map (\<lambda>i. plus_hours st (int i)) [0..<n])
           = Inr (map (\<lambda>d. rh (instant d - instant it)) (map (\<lambda>i. plus_hours st (int i)) [0..<n]))"
proof (rule comprehension_map)
  fix d assume "d \<in> set (map (\<lambda>i. plus_hours st (int i)) [0..<n])"
  then have "utcoffset d = utcoffset st"
    by auto
  then have "utcoffset d = None \<longleftrightarrow> utcoffset it = None"
    using assms by simp
  from dt_diff_same_awareness [OF this]
  show "bind_err (dt_diff d it) (\<lambda>td. Inr (rh td)) = Inr (rh (instant d - instant it))"
    by (simp add: bind_err_def)
qed

lemma issue_time_of_offset:
  assumes "utcoffset st = None \<longleftrightarrow> utcoffset tg = None"
  shows "utcoffset (issue_time_of st tg) = None \<longleftrightarrow> utcoffset st = None"
  using assms by (simp add: issue_time_of_def)

lemma parse_response_in_range:
  assumes np: "Status p \<noteq> Some ''Pending''"
    and s: "StartTime p = Some s" and st: "fi s = Some st"
    and g: "TimeGenerated p = Some g" and tg: "fi g = Some tg"
    and r: "Results p = Some r"
    and present: "GHI r \<noteq> None \<or> POAI r \<noteq> None"
    and lo: "timedelta_hours 4 \<le> micros st"
    and hi: "micros st + timedelta_hours (int (num_intervals r)) < max_micros"
    and aw: "utcoffset st = None \<longleftrightarrow> utcoffset tg = None"
  shows "parse_response fi rh p =
           (if unequal_fields r then Inl (ValueError Arrays_not_same_length)
            else Inr (Some (map (row_of rh st tg r) [0..<num_intervals r])))"
proof -
  let ?n = "num_intervals r"
  let ?it = "issue_time_of st tg"
  let ?starts = "map (\<lambda>i. plus_hours st (int i)) [0..<?n]"
  let ?ends = "map (\<lambda>d. plus_hours d 1) ?starts"
  let ?leads = "map (\<lambda>d. rh (instant d - instant ?it)) ?starts"
  from hi have hi0: "micros st < max_micros"
    by (simp add: timedelta_hours_def)
  note n = py_max_num_intervals [OF present]
  have eq: "parse_response fi rh p =
      bind_err (DataFrame ?it ?starts ?ends ?leads (GHI r) (POAI r)) (\<lambda>rows. Inr (Some rows))"
    by (simp only: parse_response_prefix [OF np s st g tg r n lo hi0 aw]
        starts_in_range [OF lo hi] ends_in_range [OF lo hi]
        leads_same_awareness [OF issue_time_of_offset [OF aw]] bind_err_simps)
  show ?thesis
  proof (cases "unequal_fields r")
    case True
    then obtain xs ys where xs: "GHI r = Some xs" and ys: "POAI r = Some ys"
      and ne: "length xs \<noteq> length ys"
      by (auto simp: unequal_fields_def split: option.splits)
    have "1 < length (remdups (raw_lengths ?starts ?ends ?leads (GHI r) (POAI r)))"
      by (rule remdups_two_distinct [of "length xs" _ "length ys"])
        (simp_all add: raw_lengths_def xs ys ne)
    then show ?thesis
      by (simp add: eq True DataFrame_def bind_err_simps)
  next
    case False
    have "set (raw_lengths ?starts ?ends ?leads (GHI r) (POAI r)) \<subseteq> {?n}"
      using equal_fields_lengths [OF False present]
      by (auto simp: raw_lengths_def split: option.splits)
    from remdups_all_equal [OF this]
    have "DataFrame ?it ?starts ?ends ?leads (GHI r) (POAI r) =
        Inr (map (\<lambda>i. \<lparr>issue_time = ?it, interval_start = ?starts ! i,
                          interval_end = ?ends ! i, lead_time_hours = ?leads ! i,
                          row_GHI = cell (GHI r) i, row_POAI = cell (POAI r) i\<rparr>) [0..<?n])"
      by (simp add: DataFrame_def)
    also have "map (\<lambda>i. \<lparr>issue_time = ?it, interval_start = ?starts ! i,
                          interval_end = ?ends ! i, lead_time_hours = ?leads ! i,
                          row_GHI = cell (GHI r) i, row_POAI = cell (POAI r) i\<rparr>) [0..<?n]
        = map (row_of rh st tg r) [0..<?n]"
      by (rule map_cong) (simp_all add: row_of_def cell_map_option plus_hours_plus_hours)
    finally show ?thesis
      by (simp add: eq False bind_err_simps)
  qed
qed

lemma parse_response_overflow:
  assumes np: "Status p \<noteq> Some ''Pending''"
    and s: "StartTime p = Some s" and st: "fi s = Some st"
    and g: "TimeGenerated p = Some g" and tg: "fi g = Some tg"
    and r: "Results p = Some r"
    and present: "GHI r \<noteq> None \<or> POAI r \<noteq> None"
    and lo: "timedelta_hours 4 \<le> micros st"
    and hi: "micros st < max_micros"
    and over: "max_micros \<le> micros st + timedelta_hours (int (num_intervals r))"
    and aw: "utcoffset st = None \<longleftrightarrow> utcoffset tg = None"
  shows "parse_response fi rh p = Inl OverflowError"
proof -
  let ?n = "num_intervals r"
  let ?cs = "comprehension (\<lambda>i. dt_add st (timedelta_minutes (int i * 60))) [0..<?n]"
  note n = py_max_num_intervals [OF present]
  note eq = parse_response_prefix [OF np s st g tg r n lo hi aw, of rh]
  from hi over have pos: "0 < ?n"
    by (cases "?n = 0") (simp_all add: timedelta_hours_def)
  show ?thesis
  proof (cases ?cs)
    case (Inl e)
    from comprehension_Inl [OF Inl] dt_add_Inl have "e = OverflowError"
      by blast
    then show ?thesis
      by (simp add: eq Inl bind_err_simps)
  next
    case starts: (Inr starts)
    let ?ce = "comprehension (\<lambda>d. dt_add d (timedelta_minutes 60)) starts"
    show ?thesis
    proof (cases ?ce)
      case (Inl e)
      from comprehension_Inl [OF Inl] dt_add_Inl have "e = OverflowError"
        by blast
      then show ?thesis
        by (simp add: eq starts Inl bind_err_simps)
    next
      case (Inr ends)
      let ?i = "?n - 1"
      from pos have i: "?i < ?n" by simp
      have len: "length starts = ?n"
        using comprehension_length [OF starts] by simp
      have "starts ! ?i = plus_hours st (int ?i)"
        using comprehension_nth [OF starts, of ?i] i
          dt_add_Inr [of st "timedelta_minutes (int ?i * 60)" "starts ! ?i"]
        by (simp add: plus_hours_def timedelta_minutes_def)
      moreover have "dt_add (starts ! ?i) (timedelta_minutes 60) = Inr (ends ! ?i)"
        using comprehension_nth [OF Inr, of ?i] i len by simp
      ultimately have "micros st + int ?i * 3600000000 + 3600000000 < max_micros"
        by (auto simp: dt_add_def Let_def timedelta_minutes_def split: if_splits)
      moreover have "int ?i + 1 = int ?n"
        using pos by simp
      then have "int ?i * 3600000000 + 3600000000 = int ?n * (3600000000::int)"
        by (simp add: algebra_simps)
      ultimately have "micros st + timedelta_hours (int ?n) < max_micros"
        by (simp add: timedelta_hours_def)
      with over show ?thesis by simp
    qed
  qed
qed

text \<open>
  C4. When at least one of GHI and POAI is present, the number of forecasts that
  \<open>parse_response\<close> computes is the maximum of the lengths of the present sequences,
  and that maximum decides the call. For a payload that is not pending, with times that
  parse (both offset-aware or both offset-naive, the start at least four hours into the
  range of datetimes): if the maximum number of hourly intervals does not end inside the
  range of datetimes, \<open>OverflowError\<close> is raised; otherwise, if both fields are present
  with different lengths, the \<open>ValueError\<close> of the data frame; otherwise the table has
  exactly that maximum number of rows, row \<open>i\<close> holding entry \<open>i\<close> of each present field
  and \<open>None\<close> for an absent one. A table that is returned has that many rows, and an
  absent field is \<open>None\<close> in every one of them.
\<close>

theorem num_intervals_and_null_fields:
  "(GHI r \<noteq> None \<or> POAI r \<noteq> None \<longrightarrow>
      py_max (present_lengths (GHI r) (POAI r)) = Inr (num_intervals r))
   \<and> (parse_response fromisoformat round_hours res_json = Inr (Some rows)
        \<and> Results res_json = Some r \<longrightarrow>
          (GHI r \<noteq> None \<or> POAI r \<noteq> None)
        \<and> length rows = num_intervals r
        \<and> (GHI r = None \<longrightarrow> (\<forall>row \<in> set rows. row_GHI row = None))
        \<and> (POAI r = None \<longrightarrow> (\<forall>row \<in> set rows. row_POAI row = None))
        \<and> (\<forall>xs. GHI r = Some xs \<longrightarrow> map row_GHI rows = map Some xs)
        \<and> (\<forall>ys. POAI r = Some ys \<longrightarrow> map row_POAI rows = map Some ys))
   \<and> (Status res_json \<noteq> Some ''Pending''
        \<and> StartTime res_json = Some s \<and> fromisoformat s = Some start_time
        \<and> TimeGenerated res_json = Some g \<and> fromisoformat g = Some time_generated
        \<and> timedelta_hours 4 \<le> micros start_time \<and> micros start_time < max_micros
        \<and> (utcoffset start_time = None \<longleftrightarrow> utcoffset time_generated = None)
        \<and> Results res_json = Some r \<and> (GHI r \<noteq> None \<or> POAI r \<noteq> None) \<longrightarrow>
          parse_response fromisoformat round_hours res_json =
            (if max_micros \<le> micros start_time + timedelta_hours (int (num_intervals r))
               then Inl OverflowError
             else if unequal_fields r then Inl (ValueError Arrays_not_same_length)
             else Inr (Some (map (row_of round_hours start_time time_generated r)
                               [0..<num_intervals r]))))"
proof -
  have exact: "parse_response fromisoformat round_hours res_json =
            (if max_micros \<le> micros start_time + timedelta_hours (int (num_intervals r))
               then Inl OverflowError
             else if unequal_fields r then Inl (ValueError Arrays_not_same_length)
             else Inr (Some (map (row_of round_hours start_time time_generated r)
                               [0..<num_intervals r])))"
    if np: "Status res_json \<noteq> Some ''Pending''"
      and s: "StartTime res_json = Some s" and st: "fromisoformat s = Some start_time"
      and g: "TimeGenerated res_json = Some g" and tg: "fromisoformat g = Some time_generated"
      and lo: "timedelta_hours 4 \<le> micros start_time" and hi: "micros start_time < max_micros"
      and aw: "utcoffset start_time = None \<longleftrightarrow> utcoffset time_generated = None"
      and r: "Results res_json = Some r" and present: "GHI r \<noteq> None \<or> POAI r \<noteq> None"
  proof (cases "max_micros \<le> micros start_time + timedelta_hours (int (num_intervals r))")
    case True
    from parse_response_overflow [OF np s st g tg r present lo hi True aw, of round_hours]
    show ?thesis by (simp add: True)
  next
    case False
    then have "micros start_time + timedelta_hours (int (num_intervals r)) < max_micros"
      by simp
    from parse_response_in_range [OF np s st g tg r present lo this aw, of round_hours]
    show ?thesis by (simp add: False)
  qed
  note fields = table_fields [of r fromisoformat round_hours res_json rows]
  show ?thesis
  proof (intro conjI)
    show "GHI r \<noteq> None \<or> POAI r \<noteq> None \<longrightarrow>
      py_max (present_lengths (GHI r) (POAI r)) = Inr (num_intervals r)"
      by (rule fields [THEN conjunct1])
  qed (rule fields [THEN conjunct2], intro impI, elim conjE, rule exact, assumption+)
qed

lemma end_of_range_num: "num_intervals end_of_range_results = 2"
  by (simp add: num_intervals_def end_of_range_results_def)

theorem num_intervals_and_null_fields_witness:
  "GHI early_call_results = Some [[10, 50, 90], [11, 51, 91], [12, 52, 92]]
   \<and> POAI early_call_results = None
   \<and> py_max (present_lengths (GHI early_call_results) (POAI early_call_results))
       = Inr (num_intervals early_call_results)
   \<and> parse_response scenario_fromisoformat py_round_hours early_call_payload
       = Inr (Some early_call_rows)
   \<and> Results early_call_payload = Some early_call_results
   \<and> length early_call_rows = num_intervals early_call_results
   \<and> map row_POAI early_call_rows = [None, None, None]
   \<and> map row_GHI early_call_rows = [Some [10, 50, 90], Some [11, 51, 91], Some [12, 52, 92]]
   \<and> Status end_of_range_payload = Some ''Complete''
   \<and> StartTime end_of_range_payload = Some ''9999-12-31T22:00:00+00:00''
   \<and> scenario_fromisoformat ''9999-12-31T22:00:00+00:00'' = Some (dec31_9999 22)
   \<and> TimeGenerated end_of_range_payload = Some ''2024-02-14T02:00:00+00:00''
   \<and> scenario_fromisoformat ''2024-02-14T02:00:00+00:00'' = Some (feb14 2 0)
   \<and> Results end_of_range_payload = Some end_of_range_results
   \<and> GHI end_of_range_results = Some [[10, 50, 90]]
   \<and> POAI end_of_range_results = Some [[20, 60, 95], [21, 61, 96]]
   \<and> num_intervals end_of_range_results = 2
   \<and> micros (dec31_9999 22) + timedelta_hours 2 = max_micros
   \<and> parse_response scenario_fromisoformat py_round_hours end_of_range_payload
       = Inl OverflowError"
proof -
  have g: "GHI early_call_results = Some [[10, 50, 90], [11, 51, 91], [12, 52, 92]]"
    and p: "POAI early_call_results = None"
    by (simp_all add: early_call_results_def)
  have r: "Results early_call_payload = Some early_call_results"
    by (simp add: early_call_payload_def)
  note early = num_intervals_and_null_fields [of early_call_results scenario_fromisoformat
      py_round_hours early_call_payload early_call_rows]
  from early g have m: "py_max (present_lengths (GHI early_call_results) (POAI early_call_results))
       = Inr (num_intervals early_call_results)"
    by simp
  from early early_call_table r have len: "length early_call_rows = num_intervals early_call_results"
    by simp
  from early early_call_table r g
  have ghi: "map row_GHI early_call_rows = [Some [10, 50, 90], Some [11, 51, 91], Some [12, 52, 92]]"
    by simp
  have poai: "map row_POAI early_call_rows = [None, None, None]"
    by (simp add: early_call_rows_def)
  have status: "Status end_of_range_payload = Some ''Complete''"
    and s: "StartTime end_of_range_payload = Some ''9999-12-31T22:00:00+00:00''"
    and tgs: "TimeGenerated end_of_range_payload = Some ''2024-02-14T02:00:00+00:00''"
    and re: "Results end_of_range_payload = Some end_of_range_results"
    by (simp_all add: end_of_range_payload_def)
  have st: "scenario_fromisoformat ''9999-12-31T22:00:00+00:00'' = Some (dec31_9999 22)"
    and tg: "scenario_fromisoformat ''2024-02-14T02:00:00+00:00'' = Some (feb14 2 0)"
    by (simp_all add: scenario_fromisoformat_def)
  have ge: "GHI end_of_range_results = Some [[10, 50, 90]]"
    and pe: "POAI end_of_range_results = Some [[20, 60, 95], [21, 61, 96]]"
    by (simp_all add: end_of_range_results_def)
  have range: "timedelta_hours 4 \<le> micros (dec31_9999 22)" "micros (dec31_9999 22) < max_micros"
    "utcoffset (dec31_9999 22) = None \<longleftrightarrow> utcoffset (feb14 2 0) = None"
    and edge: "micros (dec31_9999 22) + timedelta_hours 2 = max_micros"
    by (simp_all add: dec31_9999_def feb14_def feb14s_def timedelta_hours_def max_micros_def)
  have np: "Status end_of_range_payload \<noteq> Some ''Pending''"
    by (simp add: status)
  from num_intervals_and_null_fields [of end_of_range_results scenario_fromisoformat
      py_round_hours end_of_range_payload early_call_rows "''9999-12-31T22:00:00+00:00''"
      "dec31_9999 22" "''2024-02-14T02:00:00+00:00''" "feb14 2 0"]
    np s st tgs tg range re ge end_of_range_num edge
  have over: "parse_response scenario_fromisoformat py_round_hours end_of_range_payload
       = Inl OverflowError"
    by simp
  from g p m early_call_table r len ghi poai status s st tgs tg re ge pe end_of_range_num edge over
  show ?thesis
    by simp
qed

subsection \<open>The lead time\<close>












section \<open>Properties of \<open>get_request\<close>\<close>

lemmas get_request_defs =
  get_request_def world_of_def scenario_handler_def scenario_transport_def
  accepted_submission_def no_id_submission_def failed_submission_def
  result_request_def create_headers_def pfx_url_def dict_get_def Let_def

text \<open>The assertion is on the response that the module-level variable holds: a status
  other than 200 there raises \<open>AssertionError\<close> and nothing is sent; with status 200 and
  an identifier there, the GET for that identifier is sent.\<close>

lemma assertion_guards_module_variable:
  assumes "post_response w = Some pr" and "status_code pr \<noteq> 200"
  shows "get_request self post_request_response requests_request w = (Inl AssertionError, w)"
  using assms by (simp add: get_request_def)

lemma accepted_module_variable_gets:
  assumes "post_response w = Some pr" and "status_code pr = 200"
    and "json pr = JSONObject post_json"
    and "post_json ''ProbabilisticForecastRequestId'' = Some (JString ident)"
  shows "get_request self post_request_response requests_request w =
           (requests_request (result_request self ident),
            w\<lparr>sent := sent w @ [result_request self ident]\<rparr>)"
  using assms
  by (simp add: get_request_def result_request_def pfx_url_def dict_get_def Let_def)

text \<open>
  C9. The result and the effects of \<open>get_request\<close> do not depend on its parameter
  \<open>post_request_response\<close>: under one state of the module-level variable
  \<open>post_response\<close>, any two arguments give the same status check, the same identifier,
  the same GET and the same result.
\<close>

theorem get_request_ignores_argument:
  "get_request self first_argument requests_request w =
   get_request self second_argument requests_request w"
  by (simp add: get_request_def)

theorem get_request_ignores_argument_witness:
  "get_request scenario_handler failed_submission scenario_transport (world_of accepted_submission) =
   get_request scenario_handler accepted_submission scenario_transport (world_of accepted_submission)"
  by (rule get_request_ignores_argument)

text \<open>
  C1, as stated, fails: for a submission response with status 200 whose JSON object has
  no \<open>ProbabilisticForecastRequestId\<close>, \<open>get_request\<close> raises nothing and sends a GET
  whose URL ends in \<open>Result/None\<close>.
\<close>

theorem missing_identifier_counterexample:
  "fst (get_request scenario_handler no_id_submission scenario_transport
          (world_of no_id_submission)) = Inr scenario_reply
   \<and> sent (snd (get_request scenario_handler no_id_submission scenario_transport
          (world_of no_id_submission))) = [result_request scenario_handler ''None'']"
  by (simp add: get_request_defs)

text \<open>
  C1, amended. When \<open>get_request\<close> is passed the response that \<open>post_response\<close> holds,
  with status 200 and a JSON object without the key \<open>ProbabilisticForecastRequestId\<close>,
  it raises no exception of its own: it sends one GET, to the result endpoint followed
  by the text \<open>None\<close>, and returns what the transport returns for it.
\<close>

theorem missing_identifier_gets_none:
  assumes "post_response w = Some post_request_response"
    and "status_code post_request_response = 200"
    and "json post_request_response = JSONObject post_json"
    and "post_json ''ProbabilisticForecastRequestId'' = None"
  shows "get_request self post_request_response requests_request w =
           (requests_request (result_request self ''None''),
            w\<lparr>sent := sent w @ [result_request self ''None'']\<rparr>)"
  using assms
  by (simp add: get_request_def result_request_def pfx_url_def dict_get_def Let_def)

theorem missing_identifier_gets_none_witness:
  "post_response (world_of no_id_submission) = Some no_id_submission
   \<and> status_code no_id_submission = 200
   \<and> json no_id_submission = JSONObject Map.empty
   \<and> get_request scenario_handler no_id_submission scenario_transport (world_of no_id_submission)
       = (Inr scenario_reply,
          \<lparr>post_response = Some no_id_submission,
           sent = [result_request scenario_handler ''None'']\<rparr>)"
  using missing_identifier_gets_none [of "world_of no_id_submission" no_id_submission Map.empty
      scenario_handler scenario_transport]
  by (simp add: world_of_def no_id_submission_def scenario_transport_def)

text \<open>
  C8, on the code. The status that is checked is that of the module-level
  \<open>post_response\<close>, not that of the argument: called with a submission of status 500
  while \<open>post_response\<close> holds an accepted one, \<open>get_request\<close> sends the GET for the
  identifier \<open>abc\<close> of the latter; called with an accepted submission while
  \<open>post_response\<close> holds the failed one, it raises \<open>AssertionError\<close> and sends nothing.
\<close>

theorem failed_argument_still_gets:
  "status_code failed_submission = 500
   \<and> fst (get_request scenario_handler failed_submission scenario_transport
          (world_of accepted_submission)) = Inr scenario_reply
   \<and> sent (snd (get_request scenario_handler failed_submission scenario_transport
          (world_of accepted_submission))) = [result_request scenario_handler ''abc'']
   \<and> status_code accepted_submission = 200
   \<and> fst (get_request scenario_handler accepted_submission scenario_transport
          (world_of failed_submission)) = Inl AssertionError
   \<and> sent (snd (get_request scenario_handler accepted_submission scenario_transport
          (world_of failed_submission))) = []"
  by (simp add: get_request_defs)

end
